theory Spec2Isabelle
  imports Main "HOL-Library.Word"
begin

section \<open>The custom GPIO-based I2C driver (i2c-gpio-custom.c)\<close>

text \<open>
  The driver is embedded as it is compiled for kernels from 4.15 on, where the GPIO lines
  are handed to i2c-gpio through lookup tables (the branches under
  \<^verbatim>\<open>LINUX_VERSION_CODE >= KERNEL_VERSION(4, 15, 0)\<close>). The module's globals and the part of
  the kernel the driver talks to (the GPIO lookup list, the platform bus, the allocator)
  form one explicit state; every call into the kernel is also appended to a trace, so that
  the order of the calls can be stated. A result is either a fault (the C code has left
  defined behaviour) or the returned \<^verbatim>\<open>int\<close> with the new state.
\<close>

subsection \<open>Constants\<close>

type_synonym u32 = "32 word"
type_synonym ptr = nat

definition BUS_PARAM_ID :: nat where "BUS_PARAM_ID = 0"
definition BUS_PARAM_SDA :: nat where "BUS_PARAM_SDA = 1"
definition BUS_PARAM_SCL :: nat where "BUS_PARAM_SCL = 2"
definition BUS_PARAM_UDELAY :: nat where "BUS_PARAM_UDELAY = 3"
definition BUS_PARAM_TIMEOUT :: nat where "BUS_PARAM_TIMEOUT = 4"
definition BUS_PARAM_SDA_OD :: nat where "BUS_PARAM_SDA_OD = 5"
definition BUS_PARAM_SCL_OD :: nat where "BUS_PARAM_SCL_OD = 6"
definition BUS_PARAM_SCL_OO :: nat where "BUS_PARAM_SCL_OO = 7"

definition BUS_PARAM_REQUIRED :: nat where "BUS_PARAM_REQUIRED = 3"
definition BUS_PARAM_COUNT :: nat where "BUS_PARAM_COUNT = 8"
definition BUS_COUNT_MAX :: nat where "BUS_COUNT_MAX = 4"
definition BUS_NAME_MAX :: nat where "BUS_NAME_MAX = 32"

definition EINVAL :: int where "EINVAL = 22"
definition ENOMEM :: int where "ENOMEM = 12"
definition ENODEV :: int where "ENODEV = 19"

subsection \<open>Data\<close>

text \<open>The two roles of a lookup entry, and the messages the driver prints.\<close>

datatype role = SDA | SCL

datatype message =
    Version_banner
  | Not_enough_parameters nat
  | Nonexistent_gpio u32 nat role
  | Bus_id_too_large nat
  | No_bus_parameters

text \<open>\<^verbatim>\<open>struct gpio_chip\<close>, the two fields the driver reads.\<close>

record gpio_chip =
  label :: string
  base :: int

text \<open>
  \<^verbatim>\<open>struct gpiod_lookup\<close> and \<^verbatim>\<open>struct gpiod_lookup_table\<close>. A \<^verbatim>\<open>NULL\<close> pointer is
  \<open>None\<close>. \<open>chip_hwnum\<close> keeps the 32-bit value of the expression the driver assigns.
\<close>

record gpiod_lookup =
  chip_label :: "string option"
  chip_hwnum :: u32
  con_id :: string

record gpiod_lookup_table =
  dev_id :: "ptr option"
  table :: "gpiod_lookup list"

text \<open>\<^verbatim>\<open>struct i2c_gpio_platform_data\<close> without the pin numbers of the older kernels.\<close>

record i2c_gpio_platform_data =
  udelay :: int
  timeout :: int
  sda_is_open_drain :: bool
  scl_is_open_drain :: bool
  scl_is_output_only :: bool

record platform_device =
  pdev_name :: string
  pdev_id :: int
  platform_data :: "i2c_gpio_platform_data option"

text \<open>The calls the driver makes into the kernel, in the order it makes them.\<close>

datatype event =
    Printk message
  | Gpio_to_chip u32
  | Kmalloc nat "ptr option"
  | Kfree "ptr option"
  | Gpiod_add_lookup_table nat
  | Gpiod_remove_lookup_table nat
  | Platform_device_alloc string int "ptr option"
  | Platform_device_add_data ptr int
  | Platform_device_add ptr int
  | Platform_device_del ptr
  | Platform_device_put ptr

datatype fault = Null_pointer_dereference | Out_of_bounds

text \<open>
  The state. The first group are the module's globals: the four parameter arrays with the
  count of supplied entries of each, \<^verbatim>\<open>devices\<close>, the four static lookup tables
  (\<^verbatim>\<open>gpiod_tables[i]\<close> points to \<^verbatim>\<open>gpiod_table_i\<close>, so entry \<open>i\<close> of the list is that table)
  and \<^verbatim>\<open>nr_devices\<close>. Both counters stay below nine, so they are natural numbers. The second
  group is the kernel: the installed lookup tables (by table index, in installation order),
  the platform devices on the bus, the live platform device objects, the live \<^verbatim>\<open>kmalloc\<close>
  buffers with their contents, and the next unused address.
\<close>

record state =
  bus0 :: "u32 list"
  bus1 :: "u32 list"
  bus2 :: "u32 list"
  bus3 :: "u32 list"
  bus_nump :: "nat list"
  devices :: "ptr option list"
  gpiod_tables :: "gpiod_lookup_table list"
  nr_devices :: nat
  gpio_lookup_list :: "nat list"
  registered :: "ptr list"
  pdevs :: "ptr \<rightharpoonup> platform_device"
  bufs :: "ptr \<rightharpoonup> string"
  next_ptr :: ptr
  trace :: "event list"

text \<open>
  What the kernel answers is not decided by the driver. The environment fixes it: the
  chip that owns a GPIO number (if any) and, for the provisioning of each bus slot,
  whether the two allocations succeed and what the two registration calls return.
\<close>

record env =
  gpio_to_chip :: "u32 \<Rightarrow> gpio_chip option"
  kmalloc_ok :: "nat \<Rightarrow> bool"
  platform_device_alloc_ok :: "nat \<Rightarrow> bool"
  platform_device_add_data_ret :: "nat \<Rightarrow> int"
  platform_device_add_ret :: "nat \<Rightarrow> int"

subsection \<open>The kernel calls\<close>

definition emit :: "event \<Rightarrow> state \<Rightarrow> state" where
  "emit e s = s\<lparr>trace := trace s @ [e]\<rparr>"

definition printk :: "message \<Rightarrow> state \<Rightarrow> state" where
  "printk m s = emit (Printk m) s"

definition call_gpio_to_chip :: "env \<Rightarrow> u32 \<Rightarrow> state \<Rightarrow> gpio_chip option \<times> state" where
  "call_gpio_to_chip e n s = (gpio_to_chip e n, emit (Gpio_to_chip n) s)"

definition kmalloc :: "env \<Rightarrow> nat \<Rightarrow> nat \<Rightarrow> state \<Rightarrow> ptr option \<times> state" where
  "kmalloc e slot sz s =
     (if kmalloc_ok e slot
      then (Some (next_ptr s),
            emit (Kmalloc sz (Some (next_ptr s)))
              (s\<lparr>bufs := (bufs s)(next_ptr s \<mapsto> []), next_ptr := Suc (next_ptr s)\<rparr>))
      else (None, emit (Kmalloc sz None) s))"

definition kfree :: "ptr option \<Rightarrow> state \<Rightarrow> state" where
  "kfree p s =
     (case p of
        None \<Rightarrow> emit (Kfree None) s
      | Some a \<Rightarrow> emit (Kfree (Some a)) (s\<lparr>bufs := (bufs s)(a := None)\<rparr>))"

text \<open>
  \<^verbatim>\<open>snprintf(buf, size, ...)\<close> stores at most \<open>size - 1\<close> characters of the formatted text
  and returns the length of the whole text. Writing through a \<^verbatim>\<open>NULL\<close> buffer is a fault.
\<close>

definition snprintf :: "ptr option \<Rightarrow> nat \<Rightarrow> string \<Rightarrow> state \<Rightarrow> fault + (int \<times> state)" where
  "snprintf buf sz txt s =
     (case buf of
        None \<Rightarrow> Inl Null_pointer_dereference
      | Some a \<Rightarrow> Inr (int (length txt), s\<lparr>bufs := (bufs s)(a \<mapsto> take (sz - 1) txt)\<rparr>))"

definition gpiod_add_lookup_table :: "nat \<Rightarrow> state \<Rightarrow> state" where
  "gpiod_add_lookup_table i s =
     emit (Gpiod_add_lookup_table i) (s\<lparr>gpio_lookup_list := gpio_lookup_list s @ [i]\<rparr>)"

definition gpiod_remove_lookup_table :: "nat \<Rightarrow> state \<Rightarrow> state" where
  "gpiod_remove_lookup_table i s =
     emit (Gpiod_remove_lookup_table i)
       (s\<lparr>gpio_lookup_list := removeAll i (gpio_lookup_list s)\<rparr>)"

definition platform_device_alloc ::
  "env \<Rightarrow> nat \<Rightarrow> string \<Rightarrow> int \<Rightarrow> state \<Rightarrow> ptr option \<times> state" where
  "platform_device_alloc e slot name n s =
     (if platform_device_alloc_ok e slot
      then (Some (next_ptr s),
            emit (Platform_device_alloc name n (Some (next_ptr s)))
              (s\<lparr>pdevs := (pdevs s)(next_ptr s \<mapsto>
                     \<lparr>pdev_name = name, pdev_id = n, platform_data = None\<rparr>),
                 next_ptr := Suc (next_ptr s)\<rparr>))
      else (None, emit (Platform_device_alloc name n None) s))"

definition platform_device_add_data ::
  "env \<Rightarrow> nat \<Rightarrow> ptr \<Rightarrow> i2c_gpio_platform_data \<Rightarrow> state \<Rightarrow> int \<times> state" where
  "platform_device_add_data e slot p d s =
     (let r = platform_device_add_data_ret e slot;
          s' = emit (Platform_device_add_data p r) s
      in if r = 0
         then (r, s'\<lparr>pdevs := (\<lambda>q. if q = p
                                  then map_option (\<lambda>dev. dev\<lparr>platform_data := Some d\<rparr>) (pdevs s q)
                                  else pdevs s q)\<rparr>)
         else (r, s'))"

definition platform_device_add :: "env \<Rightarrow> nat \<Rightarrow> ptr \<Rightarrow> state \<Rightarrow> int \<times> state" where
  "platform_device_add e slot p s =
     (let r = platform_device_add_ret e slot;
          s' = emit (Platform_device_add p r) s
      in if r = 0 then (r, s'\<lparr>registered := registered s @ [p]\<rparr>) else (r, s'))"

definition platform_device_del :: "ptr \<Rightarrow> state \<Rightarrow> state" where
  "platform_device_del p s =
     emit (Platform_device_del p) (s\<lparr>registered := removeAll p (registered s)\<rparr>)"

text \<open>The driver holds the only reference, so \<^verbatim>\<open>platform_device_put\<close> releases the object.\<close>

definition platform_device_put :: "ptr \<Rightarrow> state \<Rightarrow> state" where
  "platform_device_put p s = emit (Platform_device_put p) (s\<lparr>pdevs := (pdevs s)(p := None)\<rparr>)"

subsection \<open>Formatting \<^verbatim>\<open>%d\<close>\<close>

function dec :: "nat \<Rightarrow> string" where
  "dec n = (if n < 10 then [''0123456789'' ! n]
            else dec (n div 10) @ [''0123456789'' ! (n mod 10)])"
  by pat_completeness auto
termination
  by (relation "measure id") auto

declare dec.simps [simp del]

definition fmt_d :: "int \<Rightarrow> string" where
  "fmt_d i = (if i < 0 then CHR ''-'' # dec (nat (- i)) else dec (nat i))"

text \<open>The text of \<^verbatim>\<open>"i2c-gpio.%d"\<close> for an \<^verbatim>\<open>unsigned int\<close> argument read as \<^verbatim>\<open>int\<close>.\<close>

definition dev_id_text :: "u32 \<Rightarrow> string" where
  "dev_id_text n = ''i2c-gpio.'' @ fmt_d (sint n)"

subsection \<open>The lookup tables\<close>

text \<open>
  \<^verbatim>\<open>GPIOD_TABLE_TEMPLATE\<close>: no device name, and one entry for each role with no chip yet.
  The entries' index and flags are the same in every table and are never written; they
  are left out.
\<close>

definition GPIOD_TABLE_TEMPLATE :: gpiod_lookup_table where
  "GPIOD_TABLE_TEMPLATE =
     \<lparr>dev_id = None,
      table = [\<lparr>chip_label = None, chip_hwnum = 0, con_id = ''sda''\<rparr>,
               \<lparr>chip_label = None, chip_hwnum = 0, con_id = ''scl''\<rparr>]\<rparr>"

text \<open>
  \<^verbatim>\<open>gpiod_table->table[k].chip_label = chip->label;\<close>
  \<^verbatim>\<open>gpiod_table->table[k].chip_hwnum = line - chip->base;\<close>
  on the static table of the slot. The subtraction is unsigned and wraps.
\<close>

definition set_lookup :: "nat \<Rightarrow> nat \<Rightarrow> gpio_chip \<Rightarrow> u32 \<Rightarrow> state \<Rightarrow> state" where
  "set_lookup slot k chip line s =
     (let t = gpiod_tables s ! slot;
          entry = (table t ! k)\<lparr>chip_label := Some (label chip),
                                chip_hwnum := line - word_of_int (base chip)\<rparr>
      in s\<lparr>gpiod_tables := (gpiod_tables s)[slot := t\<lparr>table := (table t)[k := entry]\<rparr>]\<rparr>)"

text \<open>\<^verbatim>\<open>gpiod_table->dev_id = dev_id;\<close>\<close>

definition set_dev_id :: "nat \<Rightarrow> ptr option \<Rightarrow> state \<Rightarrow> state" where
  "set_dev_id slot p s =
     s\<lparr>gpiod_tables := (gpiod_tables s)[slot := (gpiod_tables s ! slot)\<lparr>dev_id := p\<rparr>]\<rparr>"

subsection \<open>\<^verbatim>\<open>i2c_gpio_custom_cleanup\<close>\<close>

text \<open>
  The two \<^verbatim>\<open>for\<close> statements, each reading \<^verbatim>\<open>nr_devices\<close> at every iteration as the C
  code does.
\<close>

definition cleanup_device :: "nat \<Rightarrow> state \<Rightarrow> state" where
  "cleanup_device i s =
     (case devices s ! i of
        None \<Rightarrow> s
      | Some p \<Rightarrow> platform_device_put p (platform_device_del p s))"

definition cleanup_table :: "nat \<Rightarrow> state \<Rightarrow> state" where
  "cleanup_table i s = kfree (dev_id (gpiod_tables s ! i)) (gpiod_remove_lookup_table i s)"

function cleanup_devices :: "nat \<Rightarrow> state \<Rightarrow> state" where
  "cleanup_devices i s =
     (if i < nr_devices s then cleanup_devices (Suc i) (cleanup_device i s) else s)"
  by pat_completeness auto
termination
  by (relation "measure (\<lambda>(i, s). nr_devices s - i)")
    (auto simp: cleanup_device_def platform_device_put_def platform_device_del_def emit_def
      split: option.split)

function cleanup_tables :: "nat \<Rightarrow> state \<Rightarrow> state" where
  "cleanup_tables i s =
     (if i < nr_devices s then cleanup_tables (Suc i) (cleanup_table i s) else s)"
  by pat_completeness auto
termination
  by (relation "measure (\<lambda>(i, s). nr_devices s - i)")
    (auto simp: cleanup_table_def kfree_def gpiod_remove_lookup_table_def emit_def
      split: option.split)

declare cleanup_devices.simps [simp del] cleanup_tables.simps [simp del]

text \<open>
  Both arrays have \<^verbatim>\<open>BUS_COUNT_MAX\<close> elements; reading beyond them is a fault.
\<close>

definition i2c_gpio_custom_cleanup :: "state \<Rightarrow> fault + state" where
  "i2c_gpio_custom_cleanup s =
     (if nr_devices s \<le> BUS_COUNT_MAX \<and> length (devices s) = BUS_COUNT_MAX
         \<and> length (gpiod_tables s) = BUS_COUNT_MAX
      then Inr (cleanup_tables 0 (cleanup_devices 0 s))
      else Inl Out_of_bounds)"

subsection \<open>\<^verbatim>\<open>i2c_gpio_custom_add_one\<close>\<close>

text \<open>
  The labels at the end of the function. Each falls through to the next, so each is
  defined by the next: \<^verbatim>\<open>err_put\<close>, \<^verbatim>\<open>err_remove\<close>, \<^verbatim>\<open>err_free\<close>, \<^verbatim>\<open>err\<close>.
\<close>

definition err_free :: "ptr option \<Rightarrow> int \<Rightarrow> state \<Rightarrow> int \<times> state" where
  "err_free dev_id_local err s = (err, kfree dev_id_local s)"

definition err_remove :: "nat \<Rightarrow> ptr option \<Rightarrow> int \<Rightarrow> state \<Rightarrow> int \<times> state" where
  "err_remove slot dev_id_local err s =
     err_free dev_id_local err (gpiod_remove_lookup_table slot s)"

definition err_put :: "ptr \<Rightarrow> nat \<Rightarrow> ptr option \<Rightarrow> int \<Rightarrow> state \<Rightarrow> int \<times> state" where
  "err_put pdev slot dev_id_local err s =
     err_remove slot dev_id_local err (platform_device_put pdev s)"

text \<open>
  From \<^verbatim>\<open>platform_device_alloc\<close> to the end of the function (source lines 192 to 221).
  \<^verbatim>\<open>devices\<close> has \<^verbatim>\<open>BUS_COUNT_MAX\<close> elements; a store beyond them is a fault.
\<close>

definition create_device ::
  "env \<Rightarrow> nat \<Rightarrow> u32 list \<Rightarrow> ptr option \<Rightarrow> state \<Rightarrow> fault + (int \<times> state)" where
  "create_device e slot params dev_id_local s =
     (case platform_device_alloc e slot ''i2c-gpio'' (sint (params ! BUS_PARAM_ID)) s of
        (None, s1) \<Rightarrow> Inr (err_remove slot dev_id_local (- ENOMEM) s1)
      | (Some pdev, s1) \<Rightarrow>
          (let pdata = \<lparr>udelay = sint (params ! BUS_PARAM_UDELAY),
                        timeout = sint (params ! BUS_PARAM_TIMEOUT),
                        sda_is_open_drain = (params ! BUS_PARAM_SDA_OD \<noteq> 0),
                        scl_is_open_drain = (params ! BUS_PARAM_SCL_OD \<noteq> 0),
                        scl_is_output_only = (params ! BUS_PARAM_SCL_OO \<noteq> 0)\<rparr>
           in case platform_device_add_data e slot pdev pdata s1 of
                (err, s2) \<Rightarrow>
                  if err \<noteq> 0 then Inr (err_put pdev slot dev_id_local err s2)
                  else (case platform_device_add e slot pdev s2 of
                          (err', s3) \<Rightarrow>
                            if err' \<noteq> 0 then Inr (err_put pdev slot dev_id_local err' s3)
                            else if nr_devices s3 < BUS_COUNT_MAX
                                    \<and> length (devices s3) = BUS_COUNT_MAX
                            then Inr (0, s3\<lparr>devices := (devices s3)[nr_devices s3 := Some pdev],
                                           nr_devices := Suc (nr_devices s3)\<rparr>)
                            else Inl Out_of_bounds)))"

text \<open>
  The device name and the installation of the table (source lines 182 to 189), then
  \<open>create_device\<close>. The result of \<^verbatim>\<open>kmalloc\<close> is passed to \<^verbatim>\<open>snprintf\<close> as it comes. The
  bound of the name is a parameter, \<^verbatim>\<open>BUS_NAME_MAX\<close> in the driver.
\<close>

definition name_and_install ::
  "nat \<Rightarrow> env \<Rightarrow> nat \<Rightarrow> u32 list \<Rightarrow> state \<Rightarrow> fault + (int \<times> state)" where
  "name_and_install name_max e slot params s =
     (case kmalloc e slot (name_max + 1) s of
        (dev_id_local, s1) \<Rightarrow>
          (case snprintf dev_id_local (name_max + 1) (dev_id_text (params ! BUS_PARAM_ID)) s1 of
             Inl f \<Rightarrow> Inl f
           | Inr (n, s2) \<Rightarrow>
               if n \<ge> int (name_max + 1)
               then Inr (err_free dev_id_local (- EINVAL) (printk (Bus_id_too_large slot) s2))
               else create_device e slot params dev_id_local
                      (gpiod_add_lookup_table slot (set_dev_id slot dev_id_local s2))))"

text \<open>
  The whole function. \<^verbatim>\<open>bus_nump\<close> and \<^verbatim>\<open>gpiod_tables\<close> have \<^verbatim>\<open>BUS_COUNT_MAX\<close> elements and
  \<^verbatim>\<open>params\<close> has \<^verbatim>\<open>BUS_PARAM_COUNT\<close>; an access beyond them is a fault.
\<close>

definition add_one_bounded ::
  "nat \<Rightarrow> env \<Rightarrow> nat \<Rightarrow> u32 list \<Rightarrow> state \<Rightarrow> fault + (int \<times> state)" where
  "add_one_bounded name_max e slot params s =
     (if \<not> (slot < BUS_COUNT_MAX \<and> length (bus_nump s) = BUS_COUNT_MAX
             \<and> length (gpiod_tables s) = BUS_COUNT_MAX \<and> length params = BUS_PARAM_COUNT)
      then Inl Out_of_bounds
      else if bus_nump s ! slot = 0 then Inr (0, s)
      else if bus_nump s ! slot < BUS_PARAM_REQUIRED
      then Inr (- EINVAL, printk (Not_enough_parameters slot) s)
      else
        (case call_gpio_to_chip e (params ! BUS_PARAM_SDA) s of
           (None, s1) \<Rightarrow>
             Inr (- EINVAL, printk (Nonexistent_gpio (params ! BUS_PARAM_SDA) slot SDA) s1)
         | (Some chip_sda, s1) \<Rightarrow>
             (case call_gpio_to_chip e (params ! BUS_PARAM_SCL)
                     (set_lookup slot 0 chip_sda (params ! BUS_PARAM_SDA) s1) of
                (None, s2) \<Rightarrow>
                  Inr (- EINVAL, printk (Nonexistent_gpio (params ! BUS_PARAM_SCL) slot SCL) s2)
              | (Some chip_scl, s2) \<Rightarrow>
                  name_and_install name_max e slot params
                    (set_lookup slot 1 chip_scl (params ! BUS_PARAM_SCL) s2))))"

definition i2c_gpio_custom_add_one ::
  "env \<Rightarrow> nat \<Rightarrow> u32 list \<Rightarrow> state \<Rightarrow> fault + (int \<times> state)" where
  "i2c_gpio_custom_add_one e slot params s = add_one_bounded BUS_NAME_MAX e slot params s"

subsection \<open>\<^verbatim>\<open>i2c_gpio_custom_probe\<close>\<close>

text \<open>The label \<^verbatim>\<open>err\<close> of the probe: clean up, then return the error.\<close>

definition probe_err :: "int \<Rightarrow> state \<Rightarrow> fault + (int \<times> state)" where
  "probe_err err s =
     (case i2c_gpio_custom_cleanup s of Inl f \<Rightarrow> Inl f | Inr s' \<Rightarrow> Inr (err, s'))"

text \<open>
  \<^verbatim>\<open>err = i2c_gpio_custom_add_one(...); if (err) goto err;\<close> followed by the rest of the
  function.
\<close>

definition or_goto_err ::
  "fault + (int \<times> state) \<Rightarrow> (state \<Rightarrow> fault + (int \<times> state)) \<Rightarrow> fault + (int \<times> state)" where
  "or_goto_err r rest =
     (case r of
        Inl f \<Rightarrow> Inl f
      | Inr (err, s) \<Rightarrow> if err \<noteq> 0 then probe_err err s else rest s)"

definition i2c_gpio_custom_probe :: "env \<Rightarrow> state \<Rightarrow> fault + (int \<times> state)" where
  "i2c_gpio_custom_probe e s =
     (let s0 = printk Version_banner s in
      or_goto_err (i2c_gpio_custom_add_one e 0 (bus0 s0) s0) (\<lambda>s1.
      or_goto_err (i2c_gpio_custom_add_one e 1 (bus1 s1) s1) (\<lambda>s2.
      or_goto_err (i2c_gpio_custom_add_one e 2 (bus2 s2) s2) (\<lambda>s3.
      or_goto_err (i2c_gpio_custom_add_one e 3 (bus3 s3) s3) (\<lambda>s4.
        if nr_devices s4 = 0
        then probe_err (- ENODEV) (printk No_bus_parameters s4)
        else Inr (0, s4))))))"

subsection \<open>The module parameters\<close>

text \<open>
  Modelled from the spec: \<^verbatim>\<open>module_param_array\<close> is a kernel macro, not part of the source
  file. For each bus slot the loader supplies an ordered sequence of 0 to 8 unsigned
  integers and the count of entries supplied; the entries that are not supplied keep the
  zero of the static array.
\<close>

definition module_param_array :: "u32 list \<Rightarrow> u32 list" where
  "module_param_array t = t @ replicate (BUS_PARAM_COUNT - length t) 0"

text \<open>
  The state when the module is loaded with the four tuples: static storage is zero,
  nothing is installed, nothing has been logged.
\<close>

definition init_state :: "u32 list \<Rightarrow> u32 list \<Rightarrow> u32 list \<Rightarrow> u32 list \<Rightarrow> state" where
  "init_state t0 t1 t2 t3 =
     \<lparr>bus0 = module_param_array t0, bus1 = module_param_array t1,
      bus2 = module_param_array t2, bus3 = module_param_array t3,
      bus_nump = [length t0, length t1, length t2, length t3],
      devices = replicate BUS_COUNT_MAX None,
      gpiod_tables = replicate BUS_COUNT_MAX GPIOD_TABLE_TEMPLATE,
      nr_devices = 0,
      gpio_lookup_list = [], registered = [],
      pdevs = Map.empty, bufs = Map.empty, next_ptr = 0, trace = []\<rparr>"

subsection \<open>Reading results\<close>

text \<open>The value a call returned, and the state it returned in; neither exists after a fault.\<close>

definition returned :: "fault + (int \<times> state) \<Rightarrow> int option" where
  "returned r = (case r of Inl f \<Rightarrow> None | Inr (err, s) \<Rightarrow> Some err)"

definition state_after :: "fault + (int \<times> state) \<Rightarrow> state option" where
  "state_after r = (case r of Inl f \<Rightarrow> None | Inr (err, s) \<Rightarrow> Some s)"

text \<open>The contents of the buffer at an address, if it is allocated.\<close>

definition buffer_at :: "ptr \<Rightarrow> state \<Rightarrow> string option" where
  "buffer_at a s = bufs s a"

text \<open>Cleanup run on the state a call returned in, and cleanup run twice in a row.\<close>

definition then_cleanup :: "fault + (int \<times> state) \<Rightarrow> fault + state" where
  "then_cleanup r = (case r of Inl f \<Rightarrow> Inl f | Inr (err, s) \<Rightarrow> i2c_gpio_custom_cleanup s)"

definition cleanup_again :: "fault + state \<Rightarrow> fault + state" where
  "cleanup_again r = (case r of Inl f \<Rightarrow> Inl f | Inr s \<Rightarrow> i2c_gpio_custom_cleanup s)"

text \<open>The events a call has added to the trace of \<open>s\<close>.\<close>

definition new_events :: "state \<Rightarrow> state \<Rightarrow> event list" where
  "new_events s s' = drop (length (trace s)) (trace s')"

subsection \<open>The provisioning pass, slot by slot\<close>

text \<open>
  The probe calls \<^verbatim>\<open>i2c_gpio_custom_add_one(k, busk)\<close> for \<open>k\<close> from 0 to 3 and leaves the
  sequence at the first call that returns an error. \<open>slots_done e k s\<close> is that sequence
  cut after \<open>k\<close> slots: the result of the first failing call among them if there is one,
  and 0 with the state reached otherwise.
\<close>

definition bus_of :: "nat \<Rightarrow> state \<Rightarrow> u32 list" where
  "bus_of k s = [bus0 s, bus1 s, bus2 s, bus3 s] ! k"

definition add_slot :: "env \<Rightarrow> nat \<Rightarrow> state \<Rightarrow> fault + (int \<times> state)" where
  "add_slot e k s = i2c_gpio_custom_add_one e k (bus_of k s) s"

fun slots_done :: "env \<Rightarrow> nat \<Rightarrow> state \<Rightarrow> fault + (int \<times> state)" where
  "slots_done e 0 s = Inr (0, s)"
| "slots_done e (Suc k) s =
     (case slots_done e k s of
        Inl f \<Rightarrow> Inl f
      | Inr (err, s') \<Rightarrow> if err \<noteq> 0 then Inr (err, s') else add_slot e k s')"

text \<open>
  The calls cleanup makes in a state: for each index below \<^verbatim>\<open>nr_devices\<close> with a device,
  its removal and release; then for each index below \<^verbatim>\<open>nr_devices\<close> the removal of the
  table with that index and the release of its name.
\<close>

definition device_calls :: "state \<Rightarrow> nat \<Rightarrow> event list" where
  "device_calls s i =
     (case devices s ! i of
        None \<Rightarrow> []
      | Some p \<Rightarrow> [Platform_device_del p, Platform_device_put p])"

definition table_calls :: "state \<Rightarrow> nat \<Rightarrow> event list" where
  "table_calls s i = [Gpiod_remove_lookup_table i, Kfree (dev_id (gpiod_tables s ! i))]"

definition cleanup_calls :: "state \<Rightarrow> event list" where
  "cleanup_calls s =
     concat (map (device_calls s) [0..<nr_devices s])
     @ concat (map (table_calls s) [0..<nr_devices s])"

text \<open>
  What holds between two calls of the pass when \<open>k\<close> slots have been handled: the arrays
  have their sizes, the counter is the number of devices on the bus and of installed
  tables, \<^verbatim>\<open>devices\<close> holds the devices on the bus in the order they were added and
  \<^verbatim>\<open>NULL\<close> after them, only tables of handled slots are installed, and the live device
  objects are the devices on the bus.
\<close>

definition pass_inv :: "nat \<Rightarrow> state \<Rightarrow> bool" where
  "pass_inv k s \<longleftrightarrow>
     length (bus_nump s) = BUS_COUNT_MAX \<and> length (gpiod_tables s) = BUS_COUNT_MAX
     \<and> length (devices s) = BUS_COUNT_MAX
     \<and> nr_devices s \<le> k
     \<and> length (registered s) = nr_devices s
     \<and> length (gpio_lookup_list s) = nr_devices s
     \<and> devices s = map Some (registered s) @ replicate (BUS_COUNT_MAX - nr_devices s) None
     \<and> distinct (gpio_lookup_list s)
     \<and> set (gpio_lookup_list s) \<subseteq> {..<k}
     \<and> dom (pdevs s) = set (registered s)
     \<and> dom (pdevs s) \<subseteq> {..<next_ptr s}"

text \<open>
  A tuple that provisions its slot without an error: it is empty, or it has its three
  required entries, both lines have a chip, and the kernel refuses nothing.
\<close>

definition slot_succeeds :: "env \<Rightarrow> nat \<Rightarrow> u32 list \<Rightarrow> bool" where
  "slot_succeeds e k t \<longleftrightarrow>
     t = [] \<or>
     (BUS_PARAM_REQUIRED \<le> length t \<and> length t \<le> BUS_PARAM_COUNT
      \<and> gpio_to_chip e (t ! BUS_PARAM_SDA) \<noteq> None
      \<and> gpio_to_chip e (t ! BUS_PARAM_SCL) \<noteq> None
      \<and> kmalloc_ok e k \<and> platform_device_alloc_ok e k
      \<and> platform_device_add_data_ret e k = 0 \<and> platform_device_add_ret e k = 0)"

subsection \<open>Example environments\<close>

text \<open>
  One chip, \<open>gpio0\<close>, owns the lines 0 to 63; no other line has a chip. In \<open>env_ok\<close> the
  kernel refuses nothing.
\<close>

definition chip0 :: "u32 \<Rightarrow> gpio_chip option" where
  "chip0 n = (if n < 64 then Some \<lparr>label = ''gpio0'', base = 0\<rparr> else None)"

definition env_ok :: env where
  "env_ok = \<lparr>gpio_to_chip = chip0, kmalloc_ok = (\<lambda>k. True),
            platform_device_alloc_ok = (\<lambda>k. True),
            platform_device_add_data_ret = (\<lambda>k. 0), platform_device_add_ret = (\<lambda>k. 0)\<rparr>"

text \<open>\<^verbatim>\<open>kmalloc\<close> fails.\<close>

definition env_no_memory :: env where
  "env_no_memory = env_ok\<lparr>kmalloc_ok := (\<lambda>k. False)\<rparr>"

text \<open>\<^verbatim>\<open>platform_device_add\<close> fails with \<^verbatim>\<open>-EEXIST\<close> (17).\<close>

definition env_add_fails :: env where
  "env_add_fails = env_ok\<lparr>platform_device_add_ret := (\<lambda>k. - 17)\<rparr>"

text \<open>\<^verbatim>\<open>platform_device_add_data\<close> fails with \<^verbatim>\<open>-ENOMEM\<close>.\<close>

definition env_add_data_fails :: env where
  "env_add_data_fails = env_ok\<lparr>platform_device_add_data_ret := (\<lambda>k. - ENOMEM)\<rparr>"

subsection \<open>Auxiliary notions for \<^verbatim>\<open>i2c_gpio_custom_add_one\<close>\<close>

text \<open>The accesses of the function stay inside the arrays.\<close>

definition arrays_ok :: "nat \<Rightarrow> u32 list \<Rightarrow> state \<Rightarrow> bool" where
  "arrays_ok slot params s \<longleftrightarrow> slot < BUS_COUNT_MAX \<and> length (bus_nump s) = BUS_COUNT_MAX
             \<and> length (gpiod_tables s) = BUS_COUNT_MAX \<and> length params = BUS_PARAM_COUNT"

text \<open>
  The lookup tables once both lines of the slot are resolved and the name of the slot is
  the buffer at the next unused address.
\<close>

definition tables_after :: "nat \<Rightarrow> gpio_chip \<Rightarrow> gpio_chip \<Rightarrow> u32 list \<Rightarrow> state \<Rightarrow> gpiod_lookup_table list" where
  "tables_after slot c1 c2 params s =
     gpiod_tables (set_dev_id slot (Some (next_ptr s))
       (set_lookup slot 1 c2 (params ! BUS_PARAM_SCL)
         (set_lookup slot 0 c1 (params ! BUS_PARAM_SDA) s)))"

text \<open>The module parameters are the same in two states.\<close>

definition same_config :: "state \<Rightarrow> state \<Rightarrow> bool" where
  "same_config s s' \<longleftrightarrow> bus0 s' = bus0 s \<and> bus1 s' = bus1 s \<and> bus2 s' = bus2 s
     \<and> bus3 s' = bus3 s \<and> bus_nump s' = bus_nump s"

text \<open>The state cleanup ended in; there is none after a fault.\<close>

definition cleaned :: "fault + state \<Rightarrow> state option" where
  "cleaned r = (case r of Inl f \<Rightarrow> None | Inr s \<Rightarrow> Some s)"

section \<open>Auxiliary lemmas\<close>

lemmas bus_consts =
  BUS_PARAM_ID_def BUS_PARAM_SDA_def BUS_PARAM_SCL_def BUS_PARAM_UDELAY_def
  BUS_PARAM_TIMEOUT_def BUS_PARAM_SDA_OD_def BUS_PARAM_SCL_OD_def BUS_PARAM_SCL_OO_def
  BUS_PARAM_REQUIRED_def BUS_PARAM_COUNT_def BUS_COUNT_MAX_def

lemmas errnos = EINVAL_def ENOMEM_def ENODEV_def

subsection \<open>The device name fits\<close>

lemma dec_length: "0 < k \<Longrightarrow> n < 10 ^ k \<Longrightarrow> length (dec n) \<le> k"
proof (induction k arbitrary: n)
  case 0
  then show ?case by simp
next
  case (Suc k)
  show ?case
  proof (cases "n < 10")
    case True
    then show ?thesis by (subst dec.simps) simp
  next
    case False
    with Suc.prems have "0 < k" by (cases k) auto
    moreover from Suc.prems have "n div 10 < 10 ^ k" by (simp add: less_mult_imp_div_less mult.commute)
    ultimately have "length (dec (n div 10)) \<le> k" by (rule Suc.IH)
    with False show ?thesis by (subst dec.simps) simp
  qed
qed

lemma fmt_d_length: "- (2 ^ 31) \<le> i \<Longrightarrow> i < 2 ^ 31 \<Longrightarrow> length (fmt_d i) \<le> 11"
proof -
  assume a: "- (2 ^ 31) \<le> i" "i < 2 ^ 31"
  have "nat \<bar>i\<bar> < 10 ^ 10" using a by simp
  then have "length (dec (nat \<bar>i\<bar>)) \<le> 10" by (intro dec_length) simp_all
  then show ?thesis by (auto simp: fmt_d_def abs_if split: if_splits)
qed

lemma dev_id_text_length: "length (dev_id_text n) \<le> 20"
proof -
  have "- (2 ^ 31) \<le> sint n" "sint n < 2 ^ 31"
    using sint_ge [of n] sint_lt [of n] by simp_all
  then have "length (fmt_d (sint n)) \<le> 11" by (rule fmt_d_length)
  then show ?thesis by (simp add: dev_id_text_def)
qed

subsection \<open>Cleanup, field by field\<close>

lemma cleanup_device_fields:
  "nr_devices (cleanup_device i s) = nr_devices s"
  "devices (cleanup_device i s) = devices s"
  "gpiod_tables (cleanup_device i s) = gpiod_tables s"
  "gpio_lookup_list (cleanup_device i s) = gpio_lookup_list s"
  "bufs (cleanup_device i s) = bufs s"
  "trace (cleanup_device i s) = trace s @ device_calls s i"
  by (simp_all add: cleanup_device_def device_calls_def platform_device_put_def
      platform_device_del_def emit_def split: option.split)

lemma cleanup_table_fields:
  "nr_devices (cleanup_table i s) = nr_devices s"
  "devices (cleanup_table i s) = devices s"
  "gpiod_tables (cleanup_table i s) = gpiod_tables s"
  "registered (cleanup_table i s) = registered s"
  "pdevs (cleanup_table i s) = pdevs s"
  "trace (cleanup_table i s) = trace s @ table_calls s i"
  by (simp_all add: cleanup_table_def table_calls_def kfree_def
      gpiod_remove_lookup_table_def emit_def split: option.split)

lemma device_calls_cong: "devices s' = devices s \<Longrightarrow> device_calls s' = device_calls s"
  by (rule ext) (simp add: device_calls_def)

lemma table_calls_cong: "gpiod_tables s' = gpiod_tables s \<Longrightarrow> table_calls s' = table_calls s"
  by (rule ext) (simp add: table_calls_def)

lemma cleanup_devices_fields:
  "nr_devices (cleanup_devices i s) = nr_devices s \<and>
   devices (cleanup_devices i s) = devices s \<and>
   gpiod_tables (cleanup_devices i s) = gpiod_tables s \<and>
   gpio_lookup_list (cleanup_devices i s) = gpio_lookup_list s \<and>
   bufs (cleanup_devices i s) = bufs s \<and>
   trace (cleanup_devices i s) = trace s @ concat (map (device_calls s) [i..<nr_devices s])"
proof (induction i s rule: cleanup_devices.induct)
  case (1 i s)
  show ?case
  proof (cases "i < nr_devices s")
    case True
    then show ?thesis
      using "1.IH" [OF True]
      by (subst (1 2 3 4 5 6) cleanup_devices.simps)
        (simp add: cleanup_device_fields upt_conv_Cons device_calls_cong [of "cleanup_device i s" s])
  next
    case False
    then show ?thesis by (subst (1 2 3 4 5 6) cleanup_devices.simps) simp
  qed
qed

lemma cleanup_tables_fields:
  "nr_devices (cleanup_tables i s) = nr_devices s \<and>
   devices (cleanup_tables i s) = devices s \<and>
   gpiod_tables (cleanup_tables i s) = gpiod_tables s \<and>
   registered (cleanup_tables i s) = registered s \<and>
   pdevs (cleanup_tables i s) = pdevs s \<and>
   trace (cleanup_tables i s) = trace s @ concat (map (table_calls s) [i..<nr_devices s])"
proof (induction i s rule: cleanup_tables.induct)
  case (1 i s)
  show ?case
  proof (cases "i < nr_devices s")
    case True
    then show ?thesis
      using "1.IH" [OF True]
      by (subst (1 2 3 4 5 6) cleanup_tables.simps)
        (simp add: cleanup_table_fields upt_conv_Cons table_calls_cong [of "cleanup_table i s" s])
  next
    case False
    then show ?thesis by (subst (1 2 3 4 5 6) cleanup_tables.simps) simp
  qed
qed


lemmas kernel_defs = emit_def printk_def call_gpio_to_chip_def kmalloc_def kfree_def snprintf_def
  gpiod_add_lookup_table_def gpiod_remove_lookup_table_def platform_device_alloc_def
  platform_device_add_data_def platform_device_add_def platform_device_del_def
  platform_device_put_def

lemma module_param_array_nth:
  "i < length t \<Longrightarrow> module_param_array t ! i = t ! i"
  "length t \<le> i \<Longrightarrow> i < BUS_PARAM_COUNT \<Longrightarrow> module_param_array t ! i = 0"
  "length t \<le> BUS_PARAM_COUNT \<Longrightarrow> length (module_param_array t) = BUS_PARAM_COUNT"
  by (simp_all add: module_param_array_def nth_append)

subsection \<open>The outcomes of \<^verbatim>\<open>i2c_gpio_custom_add_one\<close>\<close>

lemma create_device_ok:
  assumes "platform_device_alloc_ok e slot" "platform_device_add_data_ret e slot = 0"
    "platform_device_add_ret e slot = 0" "nr_devices s < BUS_COUNT_MAX"
    "length (devices s) = BUS_COUNT_MAX"
  shows "create_device e slot params d s =
     Inr (0, s\<lparr>devices := (devices s)[nr_devices s := Some (next_ptr s)],
              nr_devices := Suc (nr_devices s),
              registered := registered s @ [next_ptr s],
              pdevs := (pdevs s)(next_ptr s \<mapsto> \<lparr>pdev_name = ''i2c-gpio'',
                 pdev_id = sint (params ! BUS_PARAM_ID),
                 platform_data = Some \<lparr>udelay = sint (params ! BUS_PARAM_UDELAY),
                        timeout = sint (params ! BUS_PARAM_TIMEOUT),
                        sda_is_open_drain = (params ! BUS_PARAM_SDA_OD \<noteq> 0),
                        scl_is_open_drain = (params ! BUS_PARAM_SCL_OD \<noteq> 0),
                        scl_is_output_only = (params ! BUS_PARAM_SCL_OO \<noteq> 0)\<rparr>\<rparr>),
              next_ptr := Suc (next_ptr s),
              trace := trace s @ [Platform_device_alloc ''i2c-gpio'' (sint (params ! BUS_PARAM_ID)) (Some (next_ptr s)),
                 Platform_device_add_data (next_ptr s) 0, Platform_device_add (next_ptr s) 0]\<rparr>)"
  using assms
  by (simp add: create_device_def platform_device_alloc_def platform_device_add_data_def
      platform_device_add_def emit_def Let_def fun_eq_iff)

lemma create_device_no_memory:
  assumes "\<not> platform_device_alloc_ok e slot"
  shows "create_device e slot params (Some b) s =
     Inr (- ENOMEM, s\<lparr>gpio_lookup_list := removeAll slot (gpio_lookup_list s),
              bufs := (bufs s)(b := None),
              trace := trace s @ [Platform_device_alloc ''i2c-gpio'' (sint (params ! BUS_PARAM_ID)) None,
                 Gpiod_remove_lookup_table slot, Kfree (Some b)]\<rparr>)"
  using assms
  by (simp add: create_device_def platform_device_alloc_def err_remove_def err_free_def
      gpiod_remove_lookup_table_def kfree_def emit_def)

lemma create_device_add_data_fails:
  assumes "platform_device_alloc_ok e slot" "platform_device_add_data_ret e slot \<noteq> 0"
  shows "create_device e slot params (Some b) s =
     Inr (platform_device_add_data_ret e slot,
          s\<lparr>gpio_lookup_list := removeAll slot (gpio_lookup_list s),
              pdevs := (pdevs s)(next_ptr s := None),
              bufs := (bufs s)(b := None),
              next_ptr := Suc (next_ptr s),
              trace := trace s @ [Platform_device_alloc ''i2c-gpio'' (sint (params ! BUS_PARAM_ID)) (Some (next_ptr s)),
                 Platform_device_add_data (next_ptr s) (platform_device_add_data_ret e slot),
                 Platform_device_put (next_ptr s),
                 Gpiod_remove_lookup_table slot, Kfree (Some b)]\<rparr>)"
  using assms
  by (simp add: create_device_def platform_device_alloc_def platform_device_add_data_def
      err_put_def err_remove_def err_free_def platform_device_put_def
      gpiod_remove_lookup_table_def kfree_def emit_def Let_def)

lemma create_device_add_fails:
  assumes "platform_device_alloc_ok e slot" "platform_device_add_data_ret e slot = 0"
    "platform_device_add_ret e slot \<noteq> 0"
  shows "create_device e slot params (Some b) s =
     Inr (platform_device_add_ret e slot,
          s\<lparr>gpio_lookup_list := removeAll slot (gpio_lookup_list s),
              pdevs := (pdevs s)(next_ptr s := None),
              bufs := (bufs s)(b := None),
              next_ptr := Suc (next_ptr s),
              trace := trace s @ [Platform_device_alloc ''i2c-gpio'' (sint (params ! BUS_PARAM_ID)) (Some (next_ptr s)),
                 Platform_device_add_data (next_ptr s) 0,
                 Platform_device_add (next_ptr s) (platform_device_add_ret e slot),
                 Platform_device_put (next_ptr s),
                 Gpiod_remove_lookup_table slot, Kfree (Some b)]\<rparr>)"
  using assms
  by (simp add: create_device_def platform_device_alloc_def platform_device_add_data_def
      platform_device_add_def err_put_def err_remove_def err_free_def platform_device_put_def
      gpiod_remove_lookup_table_def kfree_def emit_def Let_def fun_eq_iff)

lemma name_and_install_no_memory:
  "\<not> kmalloc_ok e slot \<Longrightarrow> name_and_install name_max e slot params s = Inl Null_pointer_dereference"
  by (simp add: name_and_install_def kmalloc_def snprintf_def)

lemma name_and_install_fits:
  assumes "kmalloc_ok e slot" "length (dev_id_text (params ! BUS_PARAM_ID)) \<le> name_max"
  shows "name_and_install name_max e slot params s =
     create_device e slot params (Some (next_ptr s))
       (s\<lparr>gpiod_tables := (gpiod_tables s)[slot := (gpiod_tables s ! slot)\<lparr>dev_id := Some (next_ptr s)\<rparr>],
          gpio_lookup_list := gpio_lookup_list s @ [slot],
          bufs := (bufs s)(next_ptr s \<mapsto> dev_id_text (params ! BUS_PARAM_ID)),
          next_ptr := Suc (next_ptr s),
          trace := trace s @ [Kmalloc (name_max + 1) (Some (next_ptr s)),
                              Gpiod_add_lookup_table slot]\<rparr>)"
  using assms
  by (simp add: name_and_install_def kmalloc_def snprintf_def set_dev_id_def
      gpiod_add_lookup_table_def emit_def)
    (rule arg_cong [where f = "create_device e slot params (Some (next_ptr s))"], simp)


lemma add_one_bounded_out_of_bounds:
  "\<not> arrays_ok slot params s \<Longrightarrow> add_one_bounded name_max e slot params s = Inl Out_of_bounds"
  by (simp add: add_one_bounded_def arrays_ok_def)

lemma add_one_bounded_skip:
  "arrays_ok slot params s \<Longrightarrow> bus_nump s ! slot = 0 \<Longrightarrow>
   add_one_bounded name_max e slot params s = Inr (0, s)"
  by (simp add: add_one_bounded_def arrays_ok_def)

lemma add_one_bounded_few:
  "arrays_ok slot params s \<Longrightarrow> bus_nump s ! slot \<noteq> 0 \<Longrightarrow> bus_nump s ! slot < BUS_PARAM_REQUIRED \<Longrightarrow>
   add_one_bounded name_max e slot params s =
     Inr (- EINVAL, s\<lparr>trace := trace s @ [Printk (Not_enough_parameters slot)]\<rparr>)"
  by (simp add: add_one_bounded_def arrays_ok_def printk_def emit_def)

lemma add_one_bounded_no_sda:
  "arrays_ok slot params s \<Longrightarrow> BUS_PARAM_REQUIRED \<le> bus_nump s ! slot \<Longrightarrow>
   gpio_to_chip e (params ! BUS_PARAM_SDA) = None \<Longrightarrow>
   add_one_bounded name_max e slot params s =
     Inr (- EINVAL, s\<lparr>trace := trace s @ [Gpio_to_chip (params ! BUS_PARAM_SDA),
        Printk (Nonexistent_gpio (params ! BUS_PARAM_SDA) slot SDA)]\<rparr>)"
  by (simp add: add_one_bounded_def arrays_ok_def call_gpio_to_chip_def printk_def emit_def
      BUS_PARAM_REQUIRED_def)

lemma add_one_bounded_no_scl:
  "arrays_ok slot params s \<Longrightarrow> BUS_PARAM_REQUIRED \<le> bus_nump s ! slot \<Longrightarrow>
   gpio_to_chip e (params ! BUS_PARAM_SDA) = Some c1 \<Longrightarrow>
   gpio_to_chip e (params ! BUS_PARAM_SCL) = None \<Longrightarrow>
   add_one_bounded name_max e slot params s =
     Inr (- EINVAL,
       s\<lparr>gpiod_tables := gpiod_tables (set_lookup slot 0 c1 (params ! BUS_PARAM_SDA) s),
         trace := trace s @ [Gpio_to_chip (params ! BUS_PARAM_SDA),
           Gpio_to_chip (params ! BUS_PARAM_SCL),
           Printk (Nonexistent_gpio (params ! BUS_PARAM_SCL) slot SCL)]\<rparr>)"
  by (simp add: add_one_bounded_def arrays_ok_def call_gpio_to_chip_def printk_def emit_def
      BUS_PARAM_REQUIRED_def set_lookup_def Let_def)

lemma add_one_bounded_resolved:
  "arrays_ok slot params s \<Longrightarrow> BUS_PARAM_REQUIRED \<le> bus_nump s ! slot \<Longrightarrow>
   gpio_to_chip e (params ! BUS_PARAM_SDA) = Some c1 \<Longrightarrow>
   gpio_to_chip e (params ! BUS_PARAM_SCL) = Some c2 \<Longrightarrow>
   add_one_bounded name_max e slot params s =
     name_and_install name_max e slot params
       (s\<lparr>gpiod_tables := gpiod_tables (set_lookup slot 1 c2 (params ! BUS_PARAM_SCL)
                             (set_lookup slot 0 c1 (params ! BUS_PARAM_SDA) s)),
         trace := trace s @ [Gpio_to_chip (params ! BUS_PARAM_SDA),
           Gpio_to_chip (params ! BUS_PARAM_SCL)]\<rparr>)"
  by (simp add: add_one_bounded_def arrays_ok_def call_gpio_to_chip_def emit_def
      BUS_PARAM_REQUIRED_def)
    (rule arg_cong [where f = "name_and_install name_max e slot params"],
      simp add: set_lookup_def Let_def)


lemma name_within_bound: "length (dev_id_text n) \<le> BUS_NAME_MAX"
  using dev_id_text_length [of n] by (simp add: BUS_NAME_MAX_def)

lemma add_one_no_memory:
  assumes "arrays_ok slot params s" "BUS_PARAM_REQUIRED \<le> bus_nump s ! slot"
    "gpio_to_chip e (params ! BUS_PARAM_SDA) = Some c1"
    "gpio_to_chip e (params ! BUS_PARAM_SCL) = Some c2"
    "\<not> kmalloc_ok e slot"
  shows "add_one_bounded name_max e slot params s = Inl Null_pointer_dereference"
  using assms
  by (simp add: add_one_bounded_resolved name_and_install_no_memory)

lemma add_one_installed:
  assumes "arrays_ok slot params s" "BUS_PARAM_REQUIRED \<le> bus_nump s ! slot"
    "gpio_to_chip e (params ! BUS_PARAM_SDA) = Some c1"
    "gpio_to_chip e (params ! BUS_PARAM_SCL) = Some c2"
    "kmalloc_ok e slot"
  shows "i2c_gpio_custom_add_one e slot params s =
     create_device e slot params (Some (next_ptr s))
       (s\<lparr>gpiod_tables := tables_after slot c1 c2 params s,
          gpio_lookup_list := gpio_lookup_list s @ [slot],
          bufs := (bufs s)(next_ptr s \<mapsto> dev_id_text (params ! BUS_PARAM_ID)),
          next_ptr := Suc (next_ptr s),
          trace := trace s @ [Gpio_to_chip (params ! BUS_PARAM_SDA),
             Gpio_to_chip (params ! BUS_PARAM_SCL),
             Kmalloc (BUS_NAME_MAX + 1) (Some (next_ptr s)),
             Gpiod_add_lookup_table slot]\<rparr>)"
  using assms
  by (simp add: i2c_gpio_custom_add_one_def add_one_bounded_resolved name_and_install_fits name_within_bound)
    (rule arg_cong [where f = "create_device e slot params (Some (next_ptr s))"],
      simp add: tables_after_def set_dev_id_def set_lookup_def Let_def)

lemma add_one_ok:
  assumes "arrays_ok slot params s" "BUS_PARAM_REQUIRED \<le> bus_nump s ! slot"
    "gpio_to_chip e (params ! BUS_PARAM_SDA) = Some c1"
    "gpio_to_chip e (params ! BUS_PARAM_SCL) = Some c2"
    "kmalloc_ok e slot" "platform_device_alloc_ok e slot"
    "platform_device_add_data_ret e slot = 0" "platform_device_add_ret e slot = 0"
    "nr_devices s < BUS_COUNT_MAX" "length (devices s) = BUS_COUNT_MAX"
  shows "i2c_gpio_custom_add_one e slot params s =
     Inr (0, s\<lparr>devices := (devices s)[nr_devices s := Some (Suc (next_ptr s))],
          gpiod_tables := tables_after slot c1 c2 params s,
          nr_devices := Suc (nr_devices s),
          gpio_lookup_list := gpio_lookup_list s @ [slot],
          registered := registered s @ [Suc (next_ptr s)],
          pdevs := (pdevs s)(Suc (next_ptr s) \<mapsto> \<lparr>pdev_name = ''i2c-gpio'',
                 pdev_id = sint (params ! BUS_PARAM_ID),
                 platform_data = Some \<lparr>udelay = sint (params ! BUS_PARAM_UDELAY),
                        timeout = sint (params ! BUS_PARAM_TIMEOUT),
                        sda_is_open_drain = (params ! BUS_PARAM_SDA_OD \<noteq> 0),
                        scl_is_open_drain = (params ! BUS_PARAM_SCL_OD \<noteq> 0),
                        scl_is_output_only = (params ! BUS_PARAM_SCL_OO \<noteq> 0)\<rparr>\<rparr>),
          bufs := (bufs s)(next_ptr s \<mapsto> dev_id_text (params ! BUS_PARAM_ID)),
          next_ptr := Suc (Suc (next_ptr s)),
          trace := trace s @ [Gpio_to_chip (params ! BUS_PARAM_SDA),
             Gpio_to_chip (params ! BUS_PARAM_SCL),
             Kmalloc (BUS_NAME_MAX + 1) (Some (next_ptr s)),
             Gpiod_add_lookup_table slot,
             Platform_device_alloc ''i2c-gpio'' (sint (params ! BUS_PARAM_ID)) (Some (Suc (next_ptr s))),
             Platform_device_add_data (Suc (next_ptr s)) 0,
             Platform_device_add (Suc (next_ptr s)) 0]\<rparr>)"
  using assms
  by (simp add: add_one_installed create_device_ok)

lemma add_one_alloc_fails:
  assumes "arrays_ok slot params s" "BUS_PARAM_REQUIRED \<le> bus_nump s ! slot"
    "gpio_to_chip e (params ! BUS_PARAM_SDA) = Some c1"
    "gpio_to_chip e (params ! BUS_PARAM_SCL) = Some c2"
    "kmalloc_ok e slot" "\<not> platform_device_alloc_ok e slot"
  shows "i2c_gpio_custom_add_one e slot params s =
     Inr (- ENOMEM, s\<lparr>gpiod_tables := tables_after slot c1 c2 params s,
          gpio_lookup_list := removeAll slot (gpio_lookup_list s),
          bufs := (bufs s)(next_ptr s := None),
          next_ptr := Suc (next_ptr s),
          trace := trace s @ [Gpio_to_chip (params ! BUS_PARAM_SDA),
             Gpio_to_chip (params ! BUS_PARAM_SCL),
             Kmalloc (BUS_NAME_MAX + 1) (Some (next_ptr s)),
             Gpiod_add_lookup_table slot,
             Platform_device_alloc ''i2c-gpio'' (sint (params ! BUS_PARAM_ID)) None,
             Gpiod_remove_lookup_table slot, Kfree (Some (next_ptr s))]\<rparr>)"
  using assms
  by (simp add: add_one_installed create_device_no_memory)

lemma add_one_add_data_fails:
  assumes "arrays_ok slot params s" "BUS_PARAM_REQUIRED \<le> bus_nump s ! slot"
    "gpio_to_chip e (params ! BUS_PARAM_SDA) = Some c1"
    "gpio_to_chip e (params ! BUS_PARAM_SCL) = Some c2"
    "kmalloc_ok e slot" "platform_device_alloc_ok e slot"
    "platform_device_add_data_ret e slot \<noteq> 0"
  shows "i2c_gpio_custom_add_one e slot params s =
     Inr (platform_device_add_data_ret e slot,
        s\<lparr>gpiod_tables := tables_after slot c1 c2 params s,
          gpio_lookup_list := removeAll slot (gpio_lookup_list s),
          pdevs := (pdevs s)(Suc (next_ptr s) := None),
          bufs := (bufs s)(next_ptr s := None),
          next_ptr := Suc (Suc (next_ptr s)),
          trace := trace s @ [Gpio_to_chip (params ! BUS_PARAM_SDA),
             Gpio_to_chip (params ! BUS_PARAM_SCL),
             Kmalloc (BUS_NAME_MAX + 1) (Some (next_ptr s)),
             Gpiod_add_lookup_table slot,
             Platform_device_alloc ''i2c-gpio'' (sint (params ! BUS_PARAM_ID)) (Some (Suc (next_ptr s))),
             Platform_device_add_data (Suc (next_ptr s)) (platform_device_add_data_ret e slot),
             Platform_device_put (Suc (next_ptr s)),
             Gpiod_remove_lookup_table slot, Kfree (Some (next_ptr s))]\<rparr>)"
  using assms
  by (simp add: add_one_installed create_device_add_data_fails)

lemma add_one_add_fails:
  assumes "arrays_ok slot params s" "BUS_PARAM_REQUIRED \<le> bus_nump s ! slot"
    "gpio_to_chip e (params ! BUS_PARAM_SDA) = Some c1"
    "gpio_to_chip e (params ! BUS_PARAM_SCL) = Some c2"
    "kmalloc_ok e slot" "platform_device_alloc_ok e slot"
    "platform_device_add_data_ret e slot = 0" "platform_device_add_ret e slot \<noteq> 0"
  shows "i2c_gpio_custom_add_one e slot params s =
     Inr (platform_device_add_ret e slot,
        s\<lparr>gpiod_tables := tables_after slot c1 c2 params s,
          gpio_lookup_list := removeAll slot (gpio_lookup_list s),
          pdevs := (pdevs s)(Suc (next_ptr s) := None),
          bufs := (bufs s)(next_ptr s := None),
          next_ptr := Suc (Suc (next_ptr s)),
          trace := trace s @ [Gpio_to_chip (params ! BUS_PARAM_SDA),
             Gpio_to_chip (params ! BUS_PARAM_SCL),
             Kmalloc (BUS_NAME_MAX + 1) (Some (next_ptr s)),
             Gpiod_add_lookup_table slot,
             Platform_device_alloc ''i2c-gpio'' (sint (params ! BUS_PARAM_ID)) (Some (Suc (next_ptr s))),
             Platform_device_add_data (Suc (next_ptr s)) 0,
             Platform_device_add (Suc (next_ptr s)) (platform_device_add_ret e slot),
             Platform_device_put (Suc (next_ptr s)),
             Gpiod_remove_lookup_table slot, Kfree (Some (next_ptr s))]\<rparr>)"
  using assms
  by (simp add: add_one_installed create_device_add_fails)

lemma dev_id_set_lookup:
  "map dev_id (gpiod_tables (set_lookup slot k c n s)) = map dev_id (gpiod_tables s)"
  by (cases "slot < length (gpiod_tables s)")
    (simp_all add: set_lookup_def Let_def map_update list_update_same_conv list_update_beyond)

lemma nth_set_lookup:
  "k \<noteq> slot \<Longrightarrow> gpiod_tables (set_lookup slot j c n s) ! k = gpiod_tables s ! k"
  by (simp add: set_lookup_def Let_def)

lemma init_arrays_ok:
  "slot < BUS_COUNT_MAX \<Longrightarrow> length t \<le> BUS_PARAM_COUNT \<Longrightarrow>
   arrays_ok slot (module_param_array t) (init_state t0 t1 t2 t3)"
  by (simp add: arrays_ok_def init_state_def module_param_array_nth) (simp add: bus_consts)

lemma init_fields:
  "bus_nump (init_state t0 t1 t2 t3) = [length t0, length t1, length t2, length t3]"
  "nr_devices (init_state t0 t1 t2 t3) = 0"
  "devices (init_state t0 t1 t2 t3) = replicate BUS_COUNT_MAX None"
  "gpiod_tables (init_state t0 t1 t2 t3) = replicate BUS_COUNT_MAX GPIOD_TABLE_TEMPLATE"
  "gpio_lookup_list (init_state t0 t1 t2 t3) = []"
  "registered (init_state t0 t1 t2 t3) = []"
  "pdevs (init_state t0 t1 t2 t3) = Map.empty"
  "bufs (init_state t0 t1 t2 t3) = Map.empty"
  "next_ptr (init_state t0 t1 t2 t3) = 0"
  "trace (init_state t0 t1 t2 t3) = []"
  by (simp_all add: init_state_def)

lemma example_params:
  "module_param_array [a, b, c] ! BUS_PARAM_ID = a"
  "module_param_array [a, b, c] ! BUS_PARAM_SDA = b"
  "module_param_array [a, b, c] ! BUS_PARAM_SCL = c"
  by (simp_all add: module_param_array_def bus_consts)

lemma example_chips:
  "chip0 5 = Some \<lparr>label = ''gpio0'', base = 0\<rparr>"
  "chip0 6 = Some \<lparr>label = ''gpio0'', base = 0\<rparr>"
  "chip0 100000 = None"
  "gpio_to_chip env_ok = chip0"
  "gpio_to_chip env_add_fails = chip0"
  "gpio_to_chip env_add_data_fails = chip0"
  "gpio_to_chip env_no_memory = chip0"
  by (simp_all add: chip0_def env_ok_def env_add_fails_def env_add_data_fails_def
      env_no_memory_def)

subsection \<open>Cleanup as a whole\<close>

lemma cleanup_effect:
  assumes "nr_devices s \<le> BUS_COUNT_MAX" "length (devices s) = BUS_COUNT_MAX"
    "length (gpiod_tables s) = BUS_COUNT_MAX"
  shows "\<exists>s'. i2c_gpio_custom_cleanup s = Inr s'
     \<and> nr_devices s' = nr_devices s \<and> devices s' = devices s
     \<and> gpiod_tables s' = gpiod_tables s
     \<and> trace s' = trace s @ cleanup_calls s"
  using assms cleanup_devices_fields [of 0 s]
    cleanup_tables_fields [of 0 "cleanup_devices 0 s"]
  by (simp add: i2c_gpio_custom_cleanup_def cleanup_calls_def
      table_calls_cong [of "cleanup_devices 0 s" s])

lemma cleanup_nothing:
  "nr_devices s = 0 \<Longrightarrow> length (devices s) = BUS_COUNT_MAX \<Longrightarrow>
   length (gpiod_tables s) = BUS_COUNT_MAX \<Longrightarrow> i2c_gpio_custom_cleanup s = Inr s"
  by (simp add: i2c_gpio_custom_cleanup_def cleanup_devices.simps cleanup_tables.simps)

lemma cleanup_calls_cong:
  "nr_devices s' = nr_devices s \<Longrightarrow> devices s' = devices s \<Longrightarrow>
   gpiod_tables s' = gpiod_tables s \<Longrightarrow> cleanup_calls s' = cleanup_calls s"
  by (simp add: cleanup_calls_def device_calls_cong [of s' s] table_calls_cong [of s' s])

lemma cleanup_calls_empty: "cleanup_calls s = [] \<longleftrightarrow> nr_devices s = 0"
  by (cases "nr_devices s") (auto simp: cleanup_calls_def table_calls_def upt_conv_Cons simp del: upt_Suc)

lemma length_set_lookup [simp]:
  "length (gpiod_tables (set_lookup slot k c n s)) = length (gpiod_tables s)"
  by (simp add: set_lookup_def Let_def)

lemma length_tables_after [simp]:
  "length (tables_after slot c1 c2 params s) = length (gpiod_tables s)"
  by (simp add: tables_after_def set_dev_id_def)

lemma devices_store:
  assumes "length reg = n" "n < m"
  shows "(map Some reg @ replicate (m - n) None)[n := Some p]
         = map Some (reg @ [p]) @ replicate (m - Suc n) None"
proof -
  from assms(2) have "replicate (m - n) None = (None :: 'a option) # replicate (m - Suc n) None"
    by (cases "m - n") (simp_all add: Suc_diff_Suc)
  with assms(1) show ?thesis by (simp add: list_update_append)
qed

lemma pass_inv_mono: "pass_inv j s \<Longrightarrow> j \<le> k \<Longrightarrow> pass_inv k s"
  unfolding pass_inv_def by (auto simp: subset_iff)

lemma pass_invD:
  assumes "pass_inv k s"
  shows "length (bus_nump s) = BUS_COUNT_MAX" and "length (gpiod_tables s) = BUS_COUNT_MAX"
    and "length (devices s) = BUS_COUNT_MAX" and "nr_devices s \<le> k"
    and "length (registered s) = nr_devices s"
    and "length (gpio_lookup_list s) = nr_devices s"
    and "devices s = map Some (registered s) @ replicate (BUS_COUNT_MAX - nr_devices s) None"
    and "distinct (gpio_lookup_list s)" and "set (gpio_lookup_list s) \<subseteq> {..<k}"
    and "dom (pdevs s) = set (registered s)" and "dom (pdevs s) \<subseteq> {..<next_ptr s}"
  using assms unfolding pass_inv_def by blast+

lemma pass_inv_not_installed:
  assumes "pass_inv k s"
  shows "removeAll k (gpio_lookup_list s) = gpio_lookup_list s"
proof -
  from pass_invD(9) [OF assms] have "k \<notin> set (gpio_lookup_list s)" by auto
  then show ?thesis by simp
qed

lemma pass_inv_fresh:
  assumes "pass_inv k s"
  shows "(pdevs s)(Suc (next_ptr s) := None) = pdevs s"
proof -
  from pass_invD(11) [OF assms] have "Suc (next_ptr s) \<notin> dom (pdevs s)" by auto
  then show ?thesis by (simp add: fun_upd_idem_iff domIff)
qed

lemma pass_inv_frame:
  assumes "pass_inv k s" and "length (bus_nump s') = BUS_COUNT_MAX"
    and "length (gpiod_tables s') = BUS_COUNT_MAX"
    and "devices s' = devices s" and "nr_devices s' = nr_devices s"
    and "registered s' = registered s" and "gpio_lookup_list s' = gpio_lookup_list s"
    and "pdevs s' = pdevs s" and "next_ptr s \<le> next_ptr s'"
  shows "pass_inv (Suc k) s'"
proof -
  note d = pass_invD [OF assms(1)]
  have 1: "set (gpio_lookup_list s') \<subseteq> {..<Suc k}"
    using d(9) assms(7) by (auto simp: subset_iff)
  have 2: "dom (pdevs s') \<subseteq> {..<next_ptr s'}"
    using d(11) assms(8,9) by (auto simp: subset_iff)
  have 3: "nr_devices s' \<le> Suc k" using d(4) assms(5) by simp
  have 4: "length (devices s') = BUS_COUNT_MAX" "length (registered s') = nr_devices s'"
    "length (gpio_lookup_list s') = nr_devices s'" "distinct (gpio_lookup_list s')"
    "dom (pdevs s') = set (registered s')"
    "devices s' = map Some (registered s') @ replicate (BUS_COUNT_MAX - nr_devices s') None"
    unfolding assms(4-8) by (rule d)+
  show ?thesis
    unfolding pass_inv_def by (intro conjI) (fact assms(2,3) 1 2 3 4)+
qed

lemma pass_inv_added:
  assumes "pass_inv k s" and "k < BUS_COUNT_MAX" and "length (bus_nump s') = BUS_COUNT_MAX"
    and "length (gpiod_tables s') = BUS_COUNT_MAX"
    and "devices s' = (devices s)[nr_devices s := Some p]"
    and "nr_devices s' = Suc (nr_devices s)"
    and "registered s' = registered s @ [p]"
    and "gpio_lookup_list s' = gpio_lookup_list s @ [k]"
    and "pdevs s' = (pdevs s)(p \<mapsto> d)" and "p < next_ptr s'" and "next_ptr s \<le> next_ptr s'"
  shows "pass_inv (Suc k) s'"
proof -
  note d = pass_invD [OF assms(1)]
  from d(9) have k: "k \<notin> set (gpio_lookup_list s)" by auto
  have 1: "set (gpio_lookup_list s') \<subseteq> {..<Suc k}"
    using d(9) assms(8) by (auto simp: subset_iff)
  have 2: "dom (pdevs s') \<subseteq> {..<next_ptr s'}"
    using d(11) assms(9,10,11) by (auto simp: subset_iff)
  have 3: "nr_devices s' \<le> Suc k" using d(4) assms(6) by simp
  from d(4) assms(2) have lt: "nr_devices s < BUS_COUNT_MAX" by simp
  have 4: "devices s' = map Some (registered s') @ replicate (BUS_COUNT_MAX - nr_devices s') None"
    unfolding assms(5,6,7) by (subst d(7)) (rule devices_store [OF d(5) lt])
  have 5: "length (devices s') = BUS_COUNT_MAX" using d(3) assms(5) by simp
  have 6: "length (registered s') = nr_devices s'" using d(5) assms(6,7) by simp
  have 7: "length (gpio_lookup_list s') = nr_devices s'" using d(6) assms(6,8) by simp
  have 8: "distinct (gpio_lookup_list s')" using d(8) k assms(8) by simp
  have 9: "dom (pdevs s') = set (registered s')" using d(10) assms(7,9) by auto
  show ?thesis
    unfolding pass_inv_def by (intro conjI) (fact assms(3,4) 1 2 3 4 5 6 7 8 9)+
qed

lemma add_one_step:
  assumes inv: "pass_inv k s" and k: "k < BUS_COUNT_MAX"
    and r: "i2c_gpio_custom_add_one e k params s = Inr (err, s')"
  shows "pass_inv (Suc k) s' \<and> same_config s s'
         \<and> (err \<noteq> 0 \<longrightarrow> nr_devices s' = nr_devices s)
         \<and> (err = 0 \<longrightarrow> nr_devices s' = nr_devices s + (if bus_nump s ! k = 0 then 0 else 1))"
proof -
  have ok: "arrays_ok k params s"
    using r add_one_bounded_out_of_bounds [of k params s BUS_NAME_MAX e]
    by (cases "arrays_ok k params s") (simp_all add: i2c_gpio_custom_add_one_def)
  note d = pass_invD [OF inv]
  have len: "length (gpiod_tables s) = BUS_COUNT_MAX" "length (devices s) = BUS_COUNT_MAX"
    "nr_devices s < BUS_COUNT_MAX"
    using d(2,3,4) k by simp_all
  note rem = pass_inv_not_installed [OF inv] pass_inv_fresh [OF inv]
  consider (skip) "bus_nump s ! k = 0"
    | (few) "bus_nump s ! k \<noteq> 0" "bus_nump s ! k < BUS_PARAM_REQUIRED"
    | (enough) "BUS_PARAM_REQUIRED \<le> bus_nump s ! k"
    by (cases "bus_nump s ! k = 0"; cases "bus_nump s ! k < BUS_PARAM_REQUIRED") auto
  then show ?thesis
  proof cases
    case skip
    with r ok inv show ?thesis
      by (auto simp: i2c_gpio_custom_add_one_def add_one_bounded_skip same_config_def
          intro: pass_inv_mono)
  next
    case few
    with r ok have "err = - EINVAL"
      "s' = s\<lparr>trace := trace s @ [Printk (Not_enough_parameters k)]\<rparr>"
      by (simp_all add: i2c_gpio_custom_add_one_def add_one_bounded_few)
    with d(1,2) show ?thesis
      by (simp add: same_config_def errnos pass_inv_frame [OF inv])
  next
    case enough
    note n = \<open>BUS_PARAM_REQUIRED \<le> bus_nump s ! k\<close>
    have pos: "bus_nump s ! k \<noteq> 0" using n by (simp add: BUS_PARAM_REQUIRED_def)
    show ?thesis
    proof (cases "gpio_to_chip e (params ! BUS_PARAM_SDA)")
      case None
      from r add_one_bounded_no_sda [OF ok n None, of BUS_NAME_MAX] show ?thesis
        using d(1,2) by (auto simp: i2c_gpio_custom_add_one_def same_config_def errnos
            intro!: pass_inv_frame [OF inv])
    next
      case (Some c1)
      note c1 = Some
      show ?thesis
      proof (cases "gpio_to_chip e (params ! BUS_PARAM_SCL)")
        case None
        from r add_one_bounded_no_scl [OF ok n c1 None, of BUS_NAME_MAX] show ?thesis
          using d(1,2) by (auto simp: i2c_gpio_custom_add_one_def same_config_def errnos
              intro!: pass_inv_frame [OF inv])
      next
        case (Some c2)
        note c2 = Some
        show ?thesis
        proof (cases "kmalloc_ok e k")
          case False
          from r add_one_no_memory [OF ok n c1 c2 False, of BUS_NAME_MAX] show ?thesis
            by (simp add: i2c_gpio_custom_add_one_def)
        next
          case True
          note km = True
          show ?thesis
          proof (cases "platform_device_alloc_ok e k")
            case False
            from r add_one_alloc_fails [OF ok n c1 c2 km False] rem show ?thesis
              using d(1,2) by (auto simp: same_config_def errnos
                  intro!: pass_inv_frame [OF inv])
          next
            case True
            note al = True
            show ?thesis
            proof (cases "platform_device_add_data_ret e k = 0")
              case False
              from r add_one_add_data_fails [OF ok n c1 c2 km al False] False rem
              show ?thesis
                using d(1,2) by (auto simp: same_config_def
                    intro!: pass_inv_frame [OF inv])
            next
              case True
              note ad = True
              show ?thesis
              proof (cases "platform_device_add_ret e k = 0")
                case False
                from r add_one_add_fails [OF ok n c1 c2 km al ad False] False rem
                show ?thesis
                  using d(1,2) by (auto simp: same_config_def
                      intro!: pass_inv_frame [OF inv])
              next
                case True
                from r add_one_ok [OF ok n c1 c2 km al ad True len(3,2)] pos
                show ?thesis
                  using d(1,2) by (auto simp: same_config_def
                      intro!: pass_inv_added [OF inv k])
              qed
            qed
          qed
        qed
      qed
    qed
  qed
qed


lemma same_config_refl [simp]: "same_config s s"
  by (simp add: same_config_def)

lemma same_config_trans: "same_config s s1 \<Longrightarrow> same_config s1 s' \<Longrightarrow> same_config s s'"
  by (simp add: same_config_def)

lemma slots_done_inv:
  assumes "pass_inv 0 s" and "k \<le> BUS_COUNT_MAX" and "slots_done e k s = Inr (err, s')"
  shows "pass_inv k s' \<and> same_config s s'"
  using assms(2,3)
proof (induction k arbitrary: err s')
  case 0
  with assms(1) show ?case by simp
next
  case (Suc k)
  from Suc.prems(2) obtain err1 s1 where
    1: "slots_done e k s = Inr (err1, s1)"
    by (auto split: sum.splits)
  from Suc.prems(1) have k: "k \<le> BUS_COUNT_MAX" "k < BUS_COUNT_MAX" by simp_all
  from Suc.IH [OF k(1) 1] have ih: "pass_inv k s1" "same_config s s1" by simp_all
  show ?case
  proof (cases "err1 = 0")
    case True
    with Suc.prems(2) 1 have "i2c_gpio_custom_add_one e k (bus_of k s1) s1 = Inr (err, s')"
      by (simp add: add_slot_def)
    from add_one_step [OF ih(1) k(2) this] ih(2) show ?thesis
      by (auto intro: same_config_trans)
  next
    case False
    with Suc.prems(2) 1 have "s' = s1" by simp
    with ih show ?thesis by (auto intro: pass_inv_mono)
  qed
qed

lemma probe_as_slots:
  "i2c_gpio_custom_probe e s =
     (case slots_done e 4 (printk Version_banner s) of
        Inl f \<Rightarrow> Inl f
      | Inr (err, s4) \<Rightarrow>
          if err \<noteq> 0 then probe_err err s4
          else if nr_devices s4 = 0
               then probe_err (- ENODEV) (printk No_bus_parameters s4)
               else Inr (0, s4))"
proof -
  have 4: "(4::nat) = Suc (Suc (Suc (Suc 0)))" by simp
  have b: "bus_of 0 = bus0" "bus_of (Suc 0) = bus1" "bus_of (Suc (Suc 0)) = bus2"
    "bus_of (Suc (Suc (Suc 0))) = bus3"
    by (simp_all add: bus_of_def fun_eq_iff)
  have n: "(2::nat) = Suc (Suc 0)" "(3::nat) = Suc (Suc (Suc 0))" by simp_all
  show ?thesis
    unfolding i2c_gpio_custom_probe_def Let_def 4 slots_done.simps add_slot_def b
      or_goto_err_def
    by (simp add: n split: sum.split prod.split)
qed


lemma cleanup_device_bus:
  "registered (cleanup_device i s)
     = (case devices s ! i of None \<Rightarrow> registered s | Some p \<Rightarrow> removeAll p (registered s))"
  "pdevs (cleanup_device i s)
     = (case devices s ! i of None \<Rightarrow> pdevs s | Some p \<Rightarrow> (pdevs s)(p := None))"
  by (simp_all add: cleanup_device_def platform_device_put_def platform_device_del_def emit_def
      split: option.split)

lemma cleanup_device_sets:
  "set (registered (cleanup_device i s)) = set (registered s) - {p. devices s ! i = Some p}"
  "dom (pdevs (cleanup_device i s)) = dom (pdevs s) - {p. devices s ! i = Some p}"
  by (auto simp: cleanup_device_bus split: option.splits if_splits)

lemma from_index_split:
  assumes "i < n"
  shows "{p. \<exists>j. i \<le> j \<and> j < n \<and> ds ! j = Some p}
        = {p. ds ! i = Some p} \<union> {p. \<exists>j. Suc i \<le> j \<and> j < n \<and> ds ! j = Some p}"
    (is "?L = ?A \<union> ?B")
proof (rule set_eqI, rule iffI)
  fix p assume "p \<in> ?L"
  then obtain j where j: "i \<le> j" "j < n" "ds ! j = Some p" by auto
  show "p \<in> ?A \<union> ?B"
  proof (cases "j = i")
    case True
    with j show ?thesis by simp
  next
    case False
    with j have "Suc i \<le> j" by simp
    with j show ?thesis by auto
  qed
next
  fix p assume "p \<in> ?A \<union> ?B"
  then consider "ds ! i = Some p" | j where "Suc i \<le> j" "j < n" "ds ! j = Some p"
    by auto
  then show "p \<in> ?L"
  proof cases
    case 1
    with assms have "i \<le> i \<and> i < n \<and> ds ! i = Some p" by simp
    then show ?thesis by blast
  next
    case 2
    then have "i \<le> j \<and> j < n \<and> ds ! j = Some p" by simp
    then show ?thesis by blast
  qed
qed

lemma cleanup_devices_bus:
  "set (registered (cleanup_devices i s))
     = set (registered s) - {p. \<exists>j. i \<le> j \<and> j < nr_devices s \<and> devices s ! j = Some p}
   \<and> dom (pdevs (cleanup_devices i s))
     = dom (pdevs s) - {p. \<exists>j. i \<le> j \<and> j < nr_devices s \<and> devices s ! j = Some p}"
proof (induction i s rule: cleanup_devices.induct)
  case (1 i s)
  show ?case
  proof (cases "i < nr_devices s")
    case False
    then have u: "cleanup_devices i s = s" by (subst cleanup_devices.simps) simp
    from False
    have e: "{p. \<exists>j. i \<le> j \<and> j < nr_devices s \<and> devices s ! j = Some p} = {}" by auto
    show ?thesis unfolding u e by simp
  next
    case True
    then have unfold: "cleanup_devices i s = cleanup_devices (Suc i) (cleanup_device i s)"
      by (subst cleanup_devices.simps) simp
    from "1.IH" [OF True] show ?thesis
      unfolding unfold from_index_split [OF True] cleanup_device_fields cleanup_device_sets
      by blast
  qed
qed

lemma cleanup_leaves_nothing:
  assumes "pass_inv k s" and "k \<le> BUS_COUNT_MAX"
  shows "\<exists>s'. i2c_gpio_custom_cleanup s = Inr s' \<and> registered s' = [] \<and> pdevs s' = Map.empty
     \<and> nr_devices s' = nr_devices s \<and> trace s' = trace s @ cleanup_calls s"
proof -
  note d = pass_invD [OF assms(1)]
  from d(4) assms(2) have n: "nr_devices s \<le> BUS_COUNT_MAX" by simp
  from cleanup_effect [OF n d(3) d(2)] obtain s' where
    1: "i2c_gpio_custom_cleanup s = Inr s'" "nr_devices s' = nr_devices s"
       "trace s' = trace s @ cleanup_calls s"
    by blast
  from 1(1) n d(2,3) have s': "s' = cleanup_tables 0 (cleanup_devices 0 s)"
    by (simp add: i2c_gpio_custom_cleanup_def)
  have all: "set (registered s) \<subseteq> {p. \<exists>j. 0 \<le> j \<and> j < nr_devices s \<and> devices s ! j = Some p}"
  proof
    fix p assume "p \<in> set (registered s)"
    then obtain j where j: "j < length (registered s)" "registered s ! j = p"
      by (auto simp: in_set_conv_nth)
    with d(5) have "devices s ! j = Some p"
      by (subst d(7)) (simp add: nth_append)
    with j d(5) show "p \<in> {p. \<exists>j. 0 \<le> j \<and> j < nr_devices s \<and> devices s ! j = Some p}"
      by auto
  qed
  from cleanup_devices_bus [of 0 s] all d(10)
  have "set (registered (cleanup_devices 0 s)) = {}" "dom (pdevs (cleanup_devices 0 s)) = {}"
    by auto
  with cleanup_tables_fields [of 0 "cleanup_devices 0 s"] s'
  have "registered s' = []" "pdevs s' = Map.empty" by simp_all
  with 1 show ?thesis by blast
qed

lemma init_pass_inv: "pass_inv 0 (printk Version_banner (init_state t0 t1 t2 t3))"
  by (simp add: pass_inv_def printk_def emit_def init_state_def BUS_COUNT_MAX_def)

lemma slots_done_stays:
  "slots_done e j s = Inr (err, s') \<Longrightarrow> err \<noteq> 0 \<Longrightarrow> j \<le> m \<Longrightarrow>
   slots_done e m s = Inr (err, s')"
  by (induction m) (auto simp: le_Suc_eq)

subsection \<open>The pass\<close>

lemma add_slot_succeeds:
  assumes inv: "pass_inv k s" and k: "k < BUS_COUNT_MAX" and ok: "slot_succeeds e k t"
    and n: "bus_nump s ! k = length t" and b: "bus_of k s = module_param_array t"
  shows "\<exists>s'. add_slot e k s = Inr (0, s')"
proof (cases "t = []")
  case True
  note d = pass_invD [OF inv]
  have "arrays_ok k (module_param_array t) s"
    using d(1,2) k True by (simp add: arrays_ok_def module_param_array_nth)
  with True n b show ?thesis
    by (simp add: add_slot_def i2c_gpio_custom_add_one_def add_one_bounded_skip)
next
  case False
  note d = pass_invD [OF inv]
  from ok False have t: "BUS_PARAM_REQUIRED \<le> length t" "length t \<le> BUS_PARAM_COUNT"
    "gpio_to_chip e (t ! BUS_PARAM_SDA) \<noteq> None" "gpio_to_chip e (t ! BUS_PARAM_SCL) \<noteq> None"
    "kmalloc_ok e k" "platform_device_alloc_ok e k"
    "platform_device_add_data_ret e k = 0" "platform_device_add_ret e k = 0"
    unfolding slot_succeeds_def by blast+
  have a: "arrays_ok k (module_param_array t) s"
    using d(1,2) k t(2) by (simp add: arrays_ok_def module_param_array_nth)
  have p: "module_param_array t ! BUS_PARAM_SDA = t ! BUS_PARAM_SDA"
    "module_param_array t ! BUS_PARAM_SCL = t ! BUS_PARAM_SCL"
    using t(1) by (simp_all add: module_param_array_nth bus_consts)
  from t(3,4) obtain c1 c2 where
    c: "gpio_to_chip e (module_param_array t ! BUS_PARAM_SDA) = Some c1"
       "gpio_to_chip e (module_param_array t ! BUS_PARAM_SCL) = Some c2"
    unfolding p by auto
  from t(1) n have n': "BUS_PARAM_REQUIRED \<le> bus_nump s ! k" by simp
  from d(4) k have lt: "nr_devices s < BUS_COUNT_MAX" by simp
  from add_one_ok [OF a n' c t(5,6,7,8) lt d(3)] b show ?thesis
    by (simp add: add_slot_def)
qed

lemma slots_done_succeed:
  assumes inv: "pass_inv 0 s" and len: "length ts = BUS_COUNT_MAX"
    and ok: "\<And>j. j < BUS_COUNT_MAX \<Longrightarrow> slot_succeeds e j (ts ! j) \<and> bus_nump s ! j = length (ts ! j)
               \<and> bus_of j s = module_param_array (ts ! j)"
  shows "k \<le> BUS_COUNT_MAX \<Longrightarrow>
         \<exists>s'. slots_done e k s = Inr (0, s')
            \<and> nr_devices s' = nr_devices s + length (filter (\<lambda>t. t \<noteq> []) (take k ts))"
proof (induction k)
  case 0
  show ?case by simp
next
  case (Suc k)
  then have k: "k \<le> BUS_COUNT_MAX" "k < BUS_COUNT_MAX" by simp_all
  from Suc.IH [OF k(1)] obtain s1 where
    1: "slots_done e k s = Inr (0, s1)"
       "nr_devices s1 = nr_devices s + length (filter (\<lambda>t. t \<noteq> []) (take k ts))"
    by blast
  from slots_done_inv [OF inv k(1) 1(1)] have i1: "pass_inv k s1" "same_config s s1"
    by simp_all
  from i1(2) have same: "bus_nump s1 = bus_nump s" "bus_of k s1 = bus_of k s"
    by (simp_all add: same_config_def bus_of_def)
  note o = ok [OF k(2)]
  from add_slot_succeeds [OF i1(1) k(2), of e "ts ! k"] o same obtain s' where
    2: "add_slot e k s1 = Inr (0, s')" by auto
  from add_one_step [OF i1(1) k(2) 2 [unfolded add_slot_def]] same o
  have 3: "nr_devices s' = nr_devices s1 + (if ts ! k = [] then 0 else 1)" by simp
  from k(2) len have "take (Suc k) ts = take k ts @ [ts ! k]"
    by (simp add: take_Suc_conv_app_nth)
  with 1 2 3 show ?case by simp
qed

lemma init_config:
  assumes "j < BUS_COUNT_MAX"
  shows "bus_nump (printk Version_banner (init_state t0 t1 t2 t3)) ! j = length ([t0, t1, t2, t3] ! j)"
    and "bus_of j (printk Version_banner (init_state t0 t1 t2 t3))
         = module_param_array ([t0, t1, t2, t3] ! j)"
proof -
  from assms consider "j = 0" | "j = 1" | "j = 2" | "j = 3"
    unfolding BUS_COUNT_MAX_def by linarith
  then show "bus_nump (printk Version_banner (init_state t0 t1 t2 t3)) ! j = length ([t0, t1, t2, t3] ! j)"
    by cases (simp_all add: printk_def emit_def init_state_def)
  from assms consider "j = 0" | "j = 1" | "j = 2" | "j = 3"
    unfolding BUS_COUNT_MAX_def by linarith
  then show "bus_of j (printk Version_banner (init_state t0 t1 t2 t3))
         = module_param_array ([t0, t1, t2, t3] ! j)"
    by cases (simp_all add: printk_def emit_def init_state_def bus_of_def)
qed

lemma slots_done_all_skipped:
  assumes "pass_inv 0 s"
    and "\<And>j. j < BUS_COUNT_MAX \<Longrightarrow> bus_nump s ! j = 0 \<and> length (bus_of j s) = BUS_PARAM_COUNT"
  shows "k \<le> BUS_COUNT_MAX \<Longrightarrow> slots_done e k s = Inr (0, s)"
proof (induction k)
  case 0
  show ?case by simp
next
  case (Suc k)
  then have k: "k \<le> BUS_COUNT_MAX" "k < BUS_COUNT_MAX" by simp_all
  note d = pass_invD [OF assms(1)]
  from assms(2) [OF k(2)] d(1,2) k(2) have "arrays_ok k (bus_of k s) s"
    by (simp add: arrays_ok_def)
  with assms(2) [OF k(2)] have "add_slot e k s = Inr (0, s)"
    by (simp add: add_slot_def i2c_gpio_custom_add_one_def add_one_bounded_skip)
  with Suc.IH [OF k(1)] show ?case by simp
qed


lemma pass_inv_printk [simp]: "pass_inv k (printk m s) \<longleftrightarrow> pass_inv k s"
  by (simp add: pass_inv_def printk_def emit_def)

lemma cleanup_table_lookup:
  "gpio_lookup_list (cleanup_table i s) = removeAll i (gpio_lookup_list s)"
  by (simp add: cleanup_table_def kfree_def gpiod_remove_lookup_table_def emit_def
      split: option.split)

lemma cleanup_tables_lookup:
  "gpio_lookup_list (cleanup_tables i s)
     = filter (\<lambda>t. \<not> (i \<le> t \<and> t < nr_devices s)) (gpio_lookup_list s)"
proof (induction i s rule: cleanup_tables.induct)
  case (1 i s)
  show ?case
  proof (cases "i < nr_devices s")
    case False
    then have u: "cleanup_tables i s = s" by (subst cleanup_tables.simps) simp
    from False have "\<not> (i \<le> t \<and> t < nr_devices s)" for t by simp
    then show ?thesis unfolding u by simp
  next
    case True
    then have u: "cleanup_tables i s = cleanup_tables (Suc i) (cleanup_table i s)"
      by (subst cleanup_tables.simps) simp
    have "gpio_lookup_list (cleanup_tables (Suc i) (cleanup_table i s))
        = filter (\<lambda>t. \<not> (Suc i \<le> t \<and> t < nr_devices s))
            (filter (\<lambda>t. i \<noteq> t) (gpio_lookup_list s))"
      using "1.IH" [OF True]
      by (simp add: cleanup_table_fields cleanup_table_lookup removeAll_filter_not_eq)
    also have "\<dots> = filter (\<lambda>t. i \<noteq> t \<and> \<not> (Suc i \<le> t \<and> t < nr_devices s))
                      (gpio_lookup_list s)"
      by simp
    also have "\<dots> = filter (\<lambda>t. \<not> (i \<le> t \<and> t < nr_devices s)) (gpio_lookup_list s)"
      by (rule filter_cong [OF refl]) (use True in auto)
    finally show ?thesis unfolding u .
  qed
qed

lemma cleanup_lookup:
  "i2c_gpio_custom_cleanup s = Inr s' \<Longrightarrow>
   gpio_lookup_list s' = filter (\<lambda>t. \<not> t < nr_devices s) (gpio_lookup_list s)"
  using cleanup_devices_fields [of 0 s]
  by (auto simp: i2c_gpio_custom_cleanup_def cleanup_tables_lookup split: if_splits)

lemma probe_chain:
  assumes "i2c_gpio_custom_add_one e 0 (bus0 (printk Version_banner s)) (printk Version_banner s)
             = Inr (0, s1)"
    and "i2c_gpio_custom_add_one e 1 (bus1 s1) s1 = Inr (0, s2)"
    and "i2c_gpio_custom_add_one e 2 (bus2 s2) s2 = Inr (0, s3)"
    and "i2c_gpio_custom_add_one e 3 (bus3 s3) s3 = Inr (0, s4)"
    and "nr_devices s4 \<noteq> 0"
  shows "i2c_gpio_custom_probe e s = Inr (0, s4)"
  using assms by (simp add: i2c_gpio_custom_probe_def or_goto_err_def Let_def)

lemma env_ok_fields:
  "kmalloc_ok env_ok k" "platform_device_alloc_ok env_ok k"
  "platform_device_add_data_ret env_ok k = 0" "platform_device_add_ret env_ok k = 0"
  by (simp_all add: env_ok_def)

subsection \<open>Worked examples\<close>

lemma add_one_ok_fields:
  assumes "arrays_ok slot params s" "BUS_PARAM_REQUIRED \<le> bus_nump s ! slot"
    "gpio_to_chip e (params ! BUS_PARAM_SDA) = Some c1"
    "gpio_to_chip e (params ! BUS_PARAM_SCL) = Some c2"
    "kmalloc_ok e slot" "platform_device_alloc_ok e slot"
    "platform_device_add_data_ret e slot = 0" "platform_device_add_ret e slot = 0"
    "nr_devices s < BUS_COUNT_MAX" "length (devices s) = BUS_COUNT_MAX"
  obtains s' where "i2c_gpio_custom_add_one e slot params s = Inr (0, s')"
    and "trace s' = trace s @ [Gpio_to_chip (params ! BUS_PARAM_SDA),
             Gpio_to_chip (params ! BUS_PARAM_SCL),
             Kmalloc (BUS_NAME_MAX + 1) (Some (next_ptr s)),
             Gpiod_add_lookup_table slot,
             Platform_device_alloc ''i2c-gpio'' (sint (params ! BUS_PARAM_ID))
               (Some (Suc (next_ptr s))),
             Platform_device_add_data (Suc (next_ptr s)) 0,
             Platform_device_add (Suc (next_ptr s)) 0]"
    and "nr_devices s' = Suc (nr_devices s)"
    and "devices s' = (devices s)[nr_devices s := Some (Suc (next_ptr s))]"
    and "map dev_id (gpiod_tables s') = (map dev_id (gpiod_tables s))[slot := Some (next_ptr s)]"
    and "gpio_lookup_list s' = gpio_lookup_list s @ [slot]"
    and "registered s' = registered s @ [Suc (next_ptr s)]"
    and "length (gpiod_tables s') = length (gpiod_tables s)"
    and "same_config s s'"
proof -
  have m: "map dev_id (tables_after slot c1 c2 params s)
      = (map dev_id (gpiod_tables s))[slot := Some (next_ptr s)]"
    by (simp add: tables_after_def set_dev_id_def map_update dev_id_set_lookup)
  show thesis
    by (rule that [OF add_one_ok [OF assms]]) (simp_all add: m same_config_def)
qed

lemma started_fields:
  "bus0 (printk Version_banner (init_state t0 t1 t2 t3)) = module_param_array t0"
  "bus1 (printk Version_banner (init_state t0 t1 t2 t3)) = module_param_array t1"
  "bus2 (printk Version_banner (init_state t0 t1 t2 t3)) = module_param_array t2"
  "bus3 (printk Version_banner (init_state t0 t1 t2 t3)) = module_param_array t3"
  "bus_nump (printk Version_banner (init_state t0 t1 t2 t3))
     = [length t0, length t1, length t2, length t3]"
  "nr_devices (printk Version_banner (init_state t0 t1 t2 t3)) = 0"
  "devices (printk Version_banner (init_state t0 t1 t2 t3)) = [None, None, None, None]"
  "map dev_id (gpiod_tables (printk Version_banner (init_state t0 t1 t2 t3)))
     = [None, None, None, None]"
  "length (gpiod_tables (printk Version_banner (init_state t0 t1 t2 t3))) = 4"
  "gpio_lookup_list (printk Version_banner (init_state t0 t1 t2 t3)) = []"
  "registered (printk Version_banner (init_state t0 t1 t2 t3)) = []"
  "next_ptr (printk Version_banner (init_state t0 t1 t2 t3)) = 0"
  "trace (printk Version_banner (init_state t0 t1 t2 t3)) = [Printk Version_banner]"
  by (simp_all add: printk_def emit_def init_state_def BUS_COUNT_MAX_def
      GPIOD_TABLE_TEMPLATE_def numeral_eq_Suc)

lemma empty_slot_skipped:
  assumes "k < BUS_COUNT_MAX" and "length (bus_nump s) = BUS_COUNT_MAX"
    and "length (gpiod_tables s) = BUS_COUNT_MAX" and "bus_nump s ! k = 0"
  shows "i2c_gpio_custom_add_one e k (module_param_array []) s = Inr (0, s)"
  unfolding i2c_gpio_custom_add_one_def
  using assms by (intro add_one_bounded_skip) (simp_all add: arrays_ok_def module_param_array_nth)


lemma first_slot_added:
  obtains s1 where
    "i2c_gpio_custom_add_one env_ok 0
       (bus0 (printk Version_banner (init_state [0, 5, 6] t1 t2 t3)))
       (printk Version_banner (init_state [0, 5, 6] t1 t2 t3)) = Inr (0, s1)"
    and "trace s1 = [Printk Version_banner, Gpio_to_chip 5, Gpio_to_chip 6,
                  Kmalloc 33 (Some 0),
                  Gpiod_add_lookup_table 0, Platform_device_alloc ''i2c-gpio'' 0 (Some 1),
                  Platform_device_add_data 1 0, Platform_device_add 1 0]"
    and "nr_devices s1 = 1" and "devices s1 = [Some 1, None, None, None]"
    and "map dev_id (gpiod_tables s1) = [Some 0, None, None, None]"
    and "length (gpiod_tables s1) = 4"
    and "gpio_lookup_list s1 = [0]" and "registered s1 = [1]"
    and "bus_nump s1 = [3, length t1, length t2, length t3]"
    and "bus1 s1 = module_param_array t1" and "bus2 s1 = module_param_array t2"
    and "bus3 s1 = module_param_array t3"
proof -
  let ?s0 = "printk Version_banner (init_state [0, 5, 6] t1 t2 t3)"
  have a0: "arrays_ok 0 (bus0 ?s0) ?s0"
    by (simp add: arrays_ok_def started_fields module_param_array_def bus_consts)
  have n0: "BUS_PARAM_REQUIRED \<le> bus_nump ?s0 ! 0"
    by (simp add: started_fields bus_consts)
  have c0: "gpio_to_chip env_ok (bus0 ?s0 ! BUS_PARAM_SDA) = Some \<lparr>label = ''gpio0'', base = 0\<rparr>"
    "gpio_to_chip env_ok (bus0 ?s0 ! BUS_PARAM_SCL) = Some \<lparr>label = ''gpio0'', base = 0\<rparr>"
    by (simp_all add: started_fields example_params example_chips)
  have l0: "nr_devices ?s0 < BUS_COUNT_MAX" "length (devices ?s0) = BUS_COUNT_MAX"
    by (simp_all add: started_fields bus_consts)
  obtain s1 where
    r1: "i2c_gpio_custom_add_one env_ok 0 (bus0 ?s0) ?s0 = Inr (0, s1)"
    and t1: "trace s1 = trace ?s0 @ [Gpio_to_chip (bus0 ?s0 ! BUS_PARAM_SDA),
             Gpio_to_chip (bus0 ?s0 ! BUS_PARAM_SCL),
             Kmalloc (BUS_NAME_MAX + 1) (Some (next_ptr ?s0)),
             Gpiod_add_lookup_table 0,
             Platform_device_alloc ''i2c-gpio'' (sint (bus0 ?s0 ! BUS_PARAM_ID))
               (Some (Suc (next_ptr ?s0))),
             Platform_device_add_data (Suc (next_ptr ?s0)) 0,
             Platform_device_add (Suc (next_ptr ?s0)) 0]"
    and g1: "nr_devices s1 = Suc (nr_devices ?s0)"
      "devices s1 = (devices ?s0)[nr_devices ?s0 := Some (Suc (next_ptr ?s0))]"
      "map dev_id (gpiod_tables s1) = (map dev_id (gpiod_tables ?s0))[0 := Some (next_ptr ?s0)]"
      "gpio_lookup_list s1 = gpio_lookup_list ?s0 @ [0]"
      "registered s1 = registered ?s0 @ [Suc (next_ptr ?s0)]"
      "length (gpiod_tables s1) = length (gpiod_tables ?s0)"
      "same_config ?s0 s1"
    by (rule add_one_ok_fields [OF a0 n0 c0 env_ok_fields l0])
  have f1: "trace s1 = [Printk Version_banner, Gpio_to_chip 5, Gpio_to_chip 6,
                  Kmalloc 33 (Some 0),
                  Gpiod_add_lookup_table 0, Platform_device_alloc ''i2c-gpio'' 0 (Some 1),
                  Platform_device_add_data 1 0, Platform_device_add 1 0]"
    unfolding t1 by (simp add: started_fields example_params BUS_NAME_MAX_def)
  have h1: "nr_devices s1 = 1" "devices s1 = [Some 1, None, None, None]"
    "map dev_id (gpiod_tables s1) = [Some 0, None, None, None]"
    "length (gpiod_tables s1) = 4"
    "gpio_lookup_list s1 = [0]" "registered s1 = [1]"
    unfolding g1 by (simp_all add: started_fields)
  have b1: "bus_nump s1 = [3, length t1, length t2, length t3]"
    "bus1 s1 = module_param_array t1"
    "bus2 s1 = module_param_array t2" "bus3 s1 = module_param_array t3"
    using g1(7) by (simp_all add: same_config_def started_fields)
  show thesis by (rule that [OF r1 f1 h1 b1])
qed

lemma one_bus_probe:
  obtains s where "i2c_gpio_custom_probe env_ok (init_state [0, 5, 6] [] [] []) = Inr (0, s)"
    and "trace s = [Printk Version_banner, Gpio_to_chip 5, Gpio_to_chip 6, Kmalloc 33 (Some 0),
                  Gpiod_add_lookup_table 0, Platform_device_alloc ''i2c-gpio'' 0 (Some 1),
                  Platform_device_add_data 1 0, Platform_device_add 1 0]"
    and "nr_devices s = 1" and "devices s = [Some 1, None, None, None]"
    and "map dev_id (gpiod_tables s) = [Some 0, None, None, None]"
    and "length (gpiod_tables s) = 4"
    and "gpio_lookup_list s = [0]" and "registered s = [1]"
proof -
  obtain s1 where r1: "i2c_gpio_custom_add_one env_ok 0
       (bus0 (printk Version_banner (init_state [0, 5, 6] [] [] [])))
       (printk Version_banner (init_state [0, 5, 6] [] [] [])) = Inr (0, s1)"
    and f1: "trace s1 = [Printk Version_banner, Gpio_to_chip 5, Gpio_to_chip 6,
                  Kmalloc 33 (Some 0),
                  Gpiod_add_lookup_table 0, Platform_device_alloc ''i2c-gpio'' 0 (Some 1),
                  Platform_device_add_data 1 0, Platform_device_add 1 0]"
    and h1: "nr_devices s1 = 1" "devices s1 = [Some 1, None, None, None]"
      "map dev_id (gpiod_tables s1) = [Some 0, None, None, None]"
      "length (gpiod_tables s1) = 4"
      "gpio_lookup_list s1 = [0]" "registered s1 = [1]"
    and b1: "bus_nump s1 = [3, length ([] :: u32 list), length ([] :: u32 list), length ([] :: u32 list)]"
      "bus1 s1 = module_param_array []"
      "bus2 s1 = module_param_array []" "bus3 s1 = module_param_array []"
    by (rule first_slot_added)
  have skip: "i2c_gpio_custom_add_one env_ok k (module_param_array []) s1 = Inr (0, s1)"
    if "k < BUS_COUNT_MAX" "bus_nump s1 ! k = 0" for k
    using that by (intro empty_slot_skipped) (simp_all add: b1 h1 bus_consts)
  have "i2c_gpio_custom_probe env_ok (init_state [0, 5, 6] [] [] []) = Inr (0, s1)"
  proof (rule probe_chain)
    show "i2c_gpio_custom_add_one env_ok 0
       (bus0 (printk Version_banner (init_state [0, 5, 6] [] [] [])))
       (printk Version_banner (init_state [0, 5, 6] [] [] [])) = Inr (0, s1)" by (rule r1)
    show "i2c_gpio_custom_add_one env_ok 1 (bus1 s1) s1 = Inr (0, s1)"
      unfolding b1 by (rule skip) (simp_all add: b1 bus_consts)
    show "i2c_gpio_custom_add_one env_ok 2 (bus2 s1) s1 = Inr (0, s1)"
      unfolding b1 by (rule skip) (simp_all add: b1 bus_consts)
    show "i2c_gpio_custom_add_one env_ok 3 (bus3 s1) s1 = Inr (0, s1)"
      unfolding b1 by (rule skip) (simp_all add: b1 bus_consts)
    show "nr_devices s1 \<noteq> 0" by (simp add: h1)
  qed
  then show thesis by (rule that [OF _ f1 h1])
qed

lemma second_slot_probe:
  obtains s where "i2c_gpio_custom_probe env_ok (init_state [] [1, 5, 6] [] []) = Inr (0, s)"
    and "trace s = [Printk Version_banner, Gpio_to_chip 5, Gpio_to_chip 6, Kmalloc 33 (Some 0),
                  Gpiod_add_lookup_table 1, Platform_device_alloc ''i2c-gpio'' 1 (Some 1),
                  Platform_device_add_data 1 0, Platform_device_add 1 0]"
    and "nr_devices s = 1" and "devices s = [Some 1, None, None, None]"
    and "map dev_id (gpiod_tables s) = [None, Some 0, None, None]"
    and "length (gpiod_tables s) = 4"
    and "gpio_lookup_list s = [1]" and "registered s = [1]"
proof -
  let ?s0 = "printk Version_banner (init_state [] [1, 5, 6] [] [])"
  have r0: "i2c_gpio_custom_add_one env_ok 0 (bus0 ?s0) ?s0 = Inr (0, ?s0)"
    unfolding started_fields(1)
    by (rule empty_slot_skipped) (simp_all add: started_fields bus_consts)
  have a0: "arrays_ok 1 (bus1 ?s0) ?s0"
    by (simp add: arrays_ok_def started_fields module_param_array_def bus_consts)
  have n0: "BUS_PARAM_REQUIRED \<le> bus_nump ?s0 ! 1"
    by (simp add: started_fields bus_consts)
  have c0: "gpio_to_chip env_ok (bus1 ?s0 ! BUS_PARAM_SDA) = Some \<lparr>label = ''gpio0'', base = 0\<rparr>"
    "gpio_to_chip env_ok (bus1 ?s0 ! BUS_PARAM_SCL) = Some \<lparr>label = ''gpio0'', base = 0\<rparr>"
    by (simp_all add: started_fields example_params example_chips)
  have l0: "nr_devices ?s0 < BUS_COUNT_MAX" "length (devices ?s0) = BUS_COUNT_MAX"
    by (simp_all add: started_fields bus_consts)
  obtain s1 where
    r1: "i2c_gpio_custom_add_one env_ok 1 (bus1 ?s0) ?s0 = Inr (0, s1)"
    and t1: "trace s1 = trace ?s0 @ [Gpio_to_chip (bus1 ?s0 ! BUS_PARAM_SDA),
             Gpio_to_chip (bus1 ?s0 ! BUS_PARAM_SCL),
             Kmalloc (BUS_NAME_MAX + 1) (Some (next_ptr ?s0)),
             Gpiod_add_lookup_table 1,
             Platform_device_alloc ''i2c-gpio'' (sint (bus1 ?s0 ! BUS_PARAM_ID))
               (Some (Suc (next_ptr ?s0))),
             Platform_device_add_data (Suc (next_ptr ?s0)) 0,
             Platform_device_add (Suc (next_ptr ?s0)) 0]"
    and g1: "nr_devices s1 = Suc (nr_devices ?s0)"
      "devices s1 = (devices ?s0)[nr_devices ?s0 := Some (Suc (next_ptr ?s0))]"
      "map dev_id (gpiod_tables s1) = (map dev_id (gpiod_tables ?s0))[1 := Some (next_ptr ?s0)]"
      "gpio_lookup_list s1 = gpio_lookup_list ?s0 @ [1]"
      "registered s1 = registered ?s0 @ [Suc (next_ptr ?s0)]"
      "length (gpiod_tables s1) = length (gpiod_tables ?s0)"
      "same_config ?s0 s1"
    by (rule add_one_ok_fields [OF a0 n0 c0 env_ok_fields l0])
  have f1: "trace s1 = [Printk Version_banner, Gpio_to_chip 5, Gpio_to_chip 6,
                  Kmalloc 33 (Some 0),
                  Gpiod_add_lookup_table 1, Platform_device_alloc ''i2c-gpio'' 1 (Some 1),
                  Platform_device_add_data 1 0, Platform_device_add 1 0]"
    unfolding t1 by (simp add: started_fields example_params BUS_NAME_MAX_def)
  have h1: "nr_devices s1 = 1" "devices s1 = [Some 1, None, None, None]"
    "map dev_id (gpiod_tables s1) = [None, Some 0, None, None]"
    "length (gpiod_tables s1) = 4"
    "gpio_lookup_list s1 = [1]" "registered s1 = [1]"
    unfolding g1 by (simp_all add: started_fields)
  have b1: "bus_nump s1 = [0, 3, 0, 0]"
    "bus2 s1 = module_param_array []" "bus3 s1 = module_param_array []"
    using g1(7) by (simp_all add: same_config_def started_fields)
  have skip: "i2c_gpio_custom_add_one env_ok k (module_param_array []) s1 = Inr (0, s1)"
    if "k < BUS_COUNT_MAX" "bus_nump s1 ! k = 0" for k
    using that by (intro empty_slot_skipped) (simp_all add: b1 h1 bus_consts)
  have "i2c_gpio_custom_probe env_ok (init_state [] [1, 5, 6] [] []) = Inr (0, s1)"
  proof (rule probe_chain)
    show "i2c_gpio_custom_add_one env_ok 0 (bus0 ?s0) ?s0 = Inr (0, ?s0)" by (rule r0)
    show "i2c_gpio_custom_add_one env_ok 1 (bus1 ?s0) ?s0 = Inr (0, s1)" by (rule r1)
    show "i2c_gpio_custom_add_one env_ok 2 (bus2 s1) s1 = Inr (0, s1)"
      unfolding b1 by (rule skip) (simp_all add: b1 bus_consts)
    show "i2c_gpio_custom_add_one env_ok 3 (bus3 s1) s1 = Inr (0, s1)"
      unfolding b1 by (rule skip) (simp_all add: b1 bus_consts)
    show "nr_devices s1 \<noteq> 0" by (simp add: h1)
  qed
  then show thesis by (rule that [OF _ f1 h1])
qed


lemma cleanup_registered:
  assumes "i2c_gpio_custom_cleanup s = Inr s'"
  shows "set (registered s')
     = set (registered s) - {p. \<exists>j. 0 \<le> j \<and> j < nr_devices s \<and> devices s ! j = Some p}"
proof -
  from assms have "s' = cleanup_tables 0 (cleanup_devices 0 s)"
    by (simp add: i2c_gpio_custom_cleanup_def split: if_splits)
  with cleanup_tables_fields [of 0 "cleanup_devices 0 s"] cleanup_devices_bus [of 0 s]
  show ?thesis by simp
qed

lemma cleanup_calls_one:
  assumes "nr_devices s = 1" and "devices s = [Some p, None, None, None]"
    and "map dev_id (gpiod_tables s) = ds" and "length (gpiod_tables s) = 4"
  shows "cleanup_calls s
     = [Platform_device_del p, Platform_device_put p, Gpiod_remove_lookup_table 0, Kfree (ds ! 0)]"
proof -
  have "dev_id (gpiod_tables s ! 0) = map dev_id (gpiod_tables s) ! 0"
    using assms(4) by (simp add: nth_map)
  with assms show ?thesis
    by (simp add: cleanup_calls_def device_calls_def table_calls_def)
qed

lemma one_bus_cleanup:
  obtains s s' s'' where
    "i2c_gpio_custom_probe env_ok (init_state [0, 5, 6] [] [] []) = Inr (0, s)"
    and "i2c_gpio_custom_cleanup s = Inr s'" and "i2c_gpio_custom_cleanup s' = Inr s''"
    and "trace s = [Printk Version_banner, Gpio_to_chip 5, Gpio_to_chip 6, Kmalloc 33 (Some 0),
                  Gpiod_add_lookup_table 0, Platform_device_alloc ''i2c-gpio'' 0 (Some 1),
                  Platform_device_add_data 1 0, Platform_device_add 1 0]"
    and "trace s' = trace s @ [Platform_device_del 1, Platform_device_put 1,
                  Gpiod_remove_lookup_table 0, Kfree (Some 0)]"
    and "trace s'' = trace s' @ [Platform_device_del 1, Platform_device_put 1,
                  Gpiod_remove_lookup_table 0, Kfree (Some 0)]"
    and "nr_devices s = 1" and "nr_devices s' = 1" and "registered s = [1]"
    and "registered s' = []"
proof -
  obtain s where p: "i2c_gpio_custom_probe env_ok (init_state [0, 5, 6] [] [] []) = Inr (0, s)"
    and f: "trace s = [Printk Version_banner, Gpio_to_chip 5, Gpio_to_chip 6,
                  Kmalloc 33 (Some 0),
                  Gpiod_add_lookup_table 0, Platform_device_alloc ''i2c-gpio'' 0 (Some 1),
                  Platform_device_add_data 1 0, Platform_device_add 1 0]"
    and h: "nr_devices s = 1" "devices s = [Some 1, None, None, None]"
      "map dev_id (gpiod_tables s) = [Some 0, None, None, None]"
      "length (gpiod_tables s) = 4"
      "gpio_lookup_list s = [0]" "registered s = [1]"
    by (rule one_bus_probe)
  have g: "nr_devices s \<le> BUS_COUNT_MAX" "length (devices s) = BUS_COUNT_MAX"
    "length (gpiod_tables s) = BUS_COUNT_MAX"
    by (simp_all add: h bus_consts)
  from cleanup_effect [OF g] obtain s' where
    1: "i2c_gpio_custom_cleanup s = Inr s'" "nr_devices s' = nr_devices s"
       "devices s' = devices s" "gpiod_tables s' = gpiod_tables s"
       "trace s' = trace s @ cleanup_calls s"
    by (elim exE conjE)
  have g': "nr_devices s' \<le> BUS_COUNT_MAX" "length (devices s') = BUS_COUNT_MAX"
    "length (gpiod_tables s') = BUS_COUNT_MAX"
    by (simp_all add: 1 h bus_consts)
  from cleanup_effect [OF g'] obtain s'' where
    2: "i2c_gpio_custom_cleanup s' = Inr s''" "trace s'' = trace s' @ cleanup_calls s'"
    by (elim exE conjE)
  have c: "cleanup_calls s = [Platform_device_del 1, Platform_device_put 1,
                  Gpiod_remove_lookup_table 0, Kfree (Some 0)]"
    using cleanup_calls_one [OF h(1,2,3,4)] by simp
  have c': "cleanup_calls s' = cleanup_calls s"
    by (rule cleanup_calls_cong) (simp_all add: 1)
  have "set (registered s') = {}"
    unfolding cleanup_registered [OF 1(1)] by (auto simp: h)
  then have r: "registered s' = []" by simp
  show thesis
    by (rule that [OF p 1(1) 2(1) f]) (simp_all add: 1 2 c c' h r)
qed

subsection \<open>The probe when a slot fails\<close>

lemma probe_error_removes_devices:
  "(slots_done e k (printk Version_banner (init_state t0 t1 t2 t3)) = Inr (0, sk)
      \<and> k < BUS_COUNT_MAX \<and> add_slot e k sk = Inr (err, sf) \<and> err \<noteq> 0 \<longrightarrow>
      (\<exists>s'. i2c_gpio_custom_probe e (init_state t0 t1 t2 t3) = Inr (err, s')
         \<and> i2c_gpio_custom_cleanup sf = Inr s'
         \<and> new_events sf s' = cleanup_calls sf))
   \<and> (i2c_gpio_custom_probe e (init_state t0 t1 t2 t3) = Inr (err', s'') \<and> err' \<noteq> 0 \<longrightarrow>
      registered s'' = [] \<and> pdevs s'' = Map.empty)"
proof (rule conjI; rule impI)
  let ?s0 = "printk Version_banner (init_state t0 t1 t2 t3)"
  assume a: "slots_done e k ?s0 = Inr (0, sk)
      \<and> k < BUS_COUNT_MAX \<and> add_slot e k sk = Inr (err, sf) \<and> err \<noteq> 0"
  then have 1: "slots_done e (Suc k) ?s0 = Inr (err, sf)" by simp
  from a have k: "Suc k \<le> BUS_COUNT_MAX" by simp
  then have "Suc k \<le> 4" by (simp add: BUS_COUNT_MAX_def)
  from slots_done_stays [OF 1 _ this] a have 4: "slots_done e 4 ?s0 = Inr (err, sf)" by simp
  from slots_done_inv [OF init_pass_inv k 1] have "pass_inv (Suc k) sf" by simp
  from cleanup_leaves_nothing [OF this k] obtain s' where
    c: "i2c_gpio_custom_cleanup sf = Inr s'" "trace s' = trace sf @ cleanup_calls sf"
    by blast
  from a c(1) have "i2c_gpio_custom_probe e (init_state t0 t1 t2 t3) = Inr (err, s')"
    unfolding probe_as_slots 4 by (simp add: probe_err_def)
  with c show "\<exists>s'. i2c_gpio_custom_probe e (init_state t0 t1 t2 t3) = Inr (err, s')
         \<and> i2c_gpio_custom_cleanup sf = Inr s'
         \<and> new_events sf s' = cleanup_calls sf"
    by (auto simp: new_events_def)
next
  let ?s0 = "printk Version_banner (init_state t0 t1 t2 t3)"
  assume a: "i2c_gpio_custom_probe e (init_state t0 t1 t2 t3) = Inr (err', s'') \<and> err' \<noteq> 0"
  then obtain err4 s4 where 4: "slots_done e 4 ?s0 = Inr (err4, s4)"
    unfolding probe_as_slots by (auto split: sum.splits)
  from slots_done_inv [OF init_pass_inv _ 4] have inv: "pass_inv 4 s4"
    by (simp add: BUS_COUNT_MAX_def)
  have inv': "pass_inv 4 (printk No_bus_parameters s4)"
    using inv by simp
  from a 4 have "i2c_gpio_custom_cleanup s4 = Inr s''
      \<or> i2c_gpio_custom_cleanup (printk No_bus_parameters s4) = Inr s''"
    unfolding probe_as_slots by (auto simp: probe_err_def split: if_splits sum.splits)
  with cleanup_leaves_nothing [OF inv] cleanup_leaves_nothing [OF inv']
  show "registered s'' = [] \<and> pdevs s'' = Map.empty"
    by (auto simp: BUS_COUNT_MAX_def)
qed


lemma add_one_ok_bufs:
  assumes "arrays_ok slot params s" "BUS_PARAM_REQUIRED \<le> bus_nump s ! slot"
    "gpio_to_chip e (params ! BUS_PARAM_SDA) = Some c1"
    "gpio_to_chip e (params ! BUS_PARAM_SCL) = Some c2"
    "kmalloc_ok e slot" "platform_device_alloc_ok e slot"
    "platform_device_add_data_ret e slot = 0" "platform_device_add_ret e slot = 0"
    "nr_devices s < BUS_COUNT_MAX" "length (devices s) = BUS_COUNT_MAX"
  shows "map_option bufs (state_after (i2c_gpio_custom_add_one e slot params s))
     = Some ((bufs s)(next_ptr s \<mapsto> dev_id_text (params ! BUS_PARAM_ID)))"
  unfolding add_one_ok [OF assms] by (simp add: state_after_def)


lemma probe_fails_at_third:
  assumes "i2c_gpio_custom_add_one e 0 (bus0 (printk Version_banner s)) (printk Version_banner s)
             = Inr (0, s1)"
    and "i2c_gpio_custom_add_one e 1 (bus1 s1) s1 = Inr (0, s2)"
    and "i2c_gpio_custom_add_one e 2 (bus2 s2) s2 = Inr (err, s3)"
    and "err \<noteq> 0"
  shows "i2c_gpio_custom_probe e s = probe_err err s3"
  using assms by (simp add: i2c_gpio_custom_probe_def or_goto_err_def Let_def)

lemma cleanup_one_keeps_buffers:
  assumes "i2c_gpio_custom_cleanup s = Inr s'" and "nr_devices s = 1"
    and "dev_id (gpiod_tables s ! 0) = None"
  shows "bufs s' = bufs s"
proof -
  let ?x = "cleanup_devices 0 s"
  note f = cleanup_devices_fields [of 0 s]
  from assms(1) have s': "s' = cleanup_tables 0 ?x"
    by (simp add: i2c_gpio_custom_cleanup_def split: if_splits)
  have n: "nr_devices ?x = 1" using f assms(2) by simp
  have "cleanup_tables 0 ?x = cleanup_table 0 ?x"
    using n by (simp add: cleanup_tables.simps [of 0] cleanup_tables.simps [of "Suc 0"]
        cleanup_table_fields)
  moreover have "dev_id (gpiod_tables ?x ! 0) = None" using f assms(3) by simp
  ultimately have "bufs s' = bufs ?x"
    unfolding s' by (simp add: cleanup_table_def kfree_def gpiod_remove_lookup_table_def emit_def)
  with f show ?thesis by simp
qed

lemma skipped_slot_then_error:
  obtains s' where
    "i2c_gpio_custom_probe env_ok (init_state [] [1, 5, 6] [2, 3] []) = Inr (- EINVAL, s')"
    and "trace s' = [Printk Version_banner, Gpio_to_chip 5, Gpio_to_chip 6,
                  Kmalloc 33 (Some 0),
                  Gpiod_add_lookup_table 1, Platform_device_alloc ''i2c-gpio'' 1 (Some 1),
                  Platform_device_add_data 1 0, Platform_device_add 1 0,
                  Printk (Not_enough_parameters 2),
                  Platform_device_del 1, Platform_device_put 1,
                  Gpiod_remove_lookup_table 0, Kfree None]"
    and "registered s' = []" and "gpio_lookup_list s' = [1]"
    and "bufs s' 0 = Some ''i2c-gpio.1''"
proof -
  let ?s0 = "printk Version_banner (init_state [] [1, 5, 6] [2, 3] [])"
  have r0: "i2c_gpio_custom_add_one env_ok 0 (bus0 ?s0) ?s0 = Inr (0, ?s0)"
    unfolding started_fields(1)
    by (rule empty_slot_skipped) (simp_all add: started_fields bus_consts)
  have a0: "arrays_ok 1 (bus1 ?s0) ?s0"
    by (simp add: arrays_ok_def started_fields module_param_array_def bus_consts)
  have n0: "BUS_PARAM_REQUIRED \<le> bus_nump ?s0 ! 1"
    by (simp add: started_fields bus_consts)
  have c0: "gpio_to_chip env_ok (bus1 ?s0 ! BUS_PARAM_SDA) = Some \<lparr>label = ''gpio0'', base = 0\<rparr>"
    "gpio_to_chip env_ok (bus1 ?s0 ! BUS_PARAM_SCL) = Some \<lparr>label = ''gpio0'', base = 0\<rparr>"
    by (simp_all add: started_fields example_params example_chips)
  have l0: "nr_devices ?s0 < BUS_COUNT_MAX" "length (devices ?s0) = BUS_COUNT_MAX"
    by (simp_all add: started_fields bus_consts)
  obtain s1 where
    r1: "i2c_gpio_custom_add_one env_ok 1 (bus1 ?s0) ?s0 = Inr (0, s1)"
    and t1: "trace s1 = trace ?s0 @ [Gpio_to_chip (bus1 ?s0 ! BUS_PARAM_SDA),
             Gpio_to_chip (bus1 ?s0 ! BUS_PARAM_SCL),
             Kmalloc (BUS_NAME_MAX + 1) (Some (next_ptr ?s0)),
             Gpiod_add_lookup_table 1,
             Platform_device_alloc ''i2c-gpio'' (sint (bus1 ?s0 ! BUS_PARAM_ID))
               (Some (Suc (next_ptr ?s0))),
             Platform_device_add_data (Suc (next_ptr ?s0)) 0,
             Platform_device_add (Suc (next_ptr ?s0)) 0]"
    and g1: "nr_devices s1 = Suc (nr_devices ?s0)"
      "devices s1 = (devices ?s0)[nr_devices ?s0 := Some (Suc (next_ptr ?s0))]"
      "map dev_id (gpiod_tables s1) = (map dev_id (gpiod_tables ?s0))[1 := Some (next_ptr ?s0)]"
      "gpio_lookup_list s1 = gpio_lookup_list ?s0 @ [1]"
      "registered s1 = registered ?s0 @ [Suc (next_ptr ?s0)]"
      "length (gpiod_tables s1) = length (gpiod_tables ?s0)"
      "same_config ?s0 s1"
    by (rule add_one_ok_fields [OF a0 n0 c0 env_ok_fields l0])
  have f1: "trace s1 = [Printk Version_banner, Gpio_to_chip 5, Gpio_to_chip 6,
                  Kmalloc 33 (Some 0),
                  Gpiod_add_lookup_table 1, Platform_device_alloc ''i2c-gpio'' 1 (Some 1),
                  Platform_device_add_data 1 0, Platform_device_add 1 0]"
    unfolding t1 by (simp add: started_fields example_params BUS_NAME_MAX_def)
  have h1: "nr_devices s1 = 1" "devices s1 = [Some 1, None, None, None]"
    "map dev_id (gpiod_tables s1) = [None, Some 0, None, None]"
    "length (gpiod_tables s1) = 4"
    "gpio_lookup_list s1 = [1]" "registered s1 = [1]"
    unfolding g1 by (simp_all add: started_fields)
  have b1: "bus_nump s1 = [0, 3, 2, 0]" "bus2 s1 = module_param_array [2, 3]"
    using g1(7) by (simp_all add: same_config_def started_fields)
  have "bufs s1 = (bufs ?s0)(next_ptr ?s0 \<mapsto> dev_id_text (bus1 ?s0 ! BUS_PARAM_ID))"
    using add_one_ok_bufs [OF a0 n0 c0 env_ok_fields l0] unfolding r1
    by (simp add: state_after_def)
  then have u1: "bufs s1 0 = Some ''i2c-gpio.1''"
    by (simp add: started_fields example_params dev_id_text_def fmt_d_def dec.simps)
  let ?s2 = "s1\<lparr>trace := trace s1 @ [Printk (Not_enough_parameters 2)]\<rparr>"
  have a2: "arrays_ok 2 (bus2 s1) s1"
    by (simp add: arrays_ok_def b1 h1 module_param_array_def bus_consts)
  have r2: "i2c_gpio_custom_add_one env_ok 2 (bus2 s1) s1 = Inr (- EINVAL, ?s2)"
    unfolding i2c_gpio_custom_add_one_def
    by (rule add_one_bounded_few [OF a2]) (simp_all add: b1 bus_consts)
  have e: "- EINVAL \<noteq> 0" by (simp add: errnos)
  have p: "i2c_gpio_custom_probe env_ok (init_state [] [1, 5, 6] [2, 3] [])
      = probe_err (- EINVAL) ?s2"
    by (rule probe_fails_at_third [OF r0 r1 r2 e])
  have h2: "nr_devices ?s2 = 1" "devices ?s2 = [Some 1, None, None, None]"
    "map dev_id (gpiod_tables ?s2) = [None, Some 0, None, None]"
    "length (gpiod_tables ?s2) = 4"
    "gpio_lookup_list ?s2 = [1]" "registered ?s2 = [1]" "bufs ?s2 0 = Some ''i2c-gpio.1''"
    "trace ?s2 = [Printk Version_banner, Gpio_to_chip 5, Gpio_to_chip 6,
                  Kmalloc 33 (Some 0),
                  Gpiod_add_lookup_table 1, Platform_device_alloc ''i2c-gpio'' 1 (Some 1),
                  Platform_device_add_data 1 0, Platform_device_add 1 0,
                  Printk (Not_enough_parameters 2)]"
    by (simp_all add: h1 f1 u1)
  have g: "nr_devices ?s2 \<le> BUS_COUNT_MAX" "length (devices ?s2) = BUS_COUNT_MAX"
    "length (gpiod_tables ?s2) = BUS_COUNT_MAX"
    by (simp_all add: h1 bus_consts)
  from cleanup_effect [OF g] obtain s' where
    1: "i2c_gpio_custom_cleanup ?s2 = Inr s'" "trace s' = trace ?s2 @ cleanup_calls ?s2"
    by (elim exE conjE)
  have c: "cleanup_calls ?s2 = [Platform_device_del 1, Platform_device_put 1,
                  Gpiod_remove_lookup_table 0, Kfree None]"
    using cleanup_calls_one [OF h2(1,2,3,4)] by simp
  have l: "gpio_lookup_list s' = [1]"
    unfolding cleanup_lookup [OF 1(1)] by (simp add: h1)
  have "set (registered s') = {}"
    unfolding cleanup_registered [OF 1(1)] by (auto simp: h1)
  then have rg: "registered s' = []" by simp
  have d0: "dev_id (gpiod_tables ?s2 ! 0) = None"
    using h2(3,4) by (metis length_greater_0_conv list.size(3) nth_Cons_0 nth_map zero_neq_numeral)
  have bf: "bufs s' 0 = Some ''i2c-gpio.1''"
    unfolding cleanup_one_keeps_buffers [OF 1(1) h2(1) d0] by (rule h2(7))
  have pr: "i2c_gpio_custom_probe env_ok (init_state [] [1, 5, 6] [2, 3] []) = Inr (- EINVAL, s')"
    unfolding p by (simp add: probe_err_def 1)
  have tr: "trace s' = [Printk Version_banner, Gpio_to_chip 5, Gpio_to_chip 6,
                  Kmalloc 33 (Some 0),
                  Gpiod_add_lookup_table 1, Platform_device_alloc ''i2c-gpio'' 1 (Some 1),
                  Platform_device_add_data 1 0, Platform_device_add 1 0,
                  Printk (Not_enough_parameters 2),
                  Platform_device_del 1, Platform_device_put 1,
                  Gpiod_remove_lookup_table 0, Kfree None]"
    unfolding 1(2) c h2(8) by simp
  show thesis by (rule that [OF pr tr rg l bf])
qed

section \<open>The claims\<close>

subsection \<open>C1: rollback inside one slot\<close>

text \<open>
  C1. For every tuple with its required fields and resolvable lines: if the name buffer
  and the device object are obtained and then \<^verbatim>\<open>platform_device_add_data\<close> or
  \<^verbatim>\<open>platform_device_add\<close> fails, the call returns the error of the failing step, and
  the calls it has made are, in this order, the acquisitions (name buffer, installation
  of the table, device object), the failing step, and then the releases in the opposite
  order: the device object is put, the table is removed, the name buffer is freed last.
  Afterwards the device object is gone, the table of the slot is not installed, the name
  buffer is gone, and the bus, \<^verbatim>\<open>devices\<close> and \<^verbatim>\<open>nr_devices\<close> are as before.
\<close>

theorem rollback_after_install:
  assumes "arrays_ok slot params s" and "BUS_PARAM_REQUIRED \<le> bus_nump s ! slot"
    and "gpio_to_chip e (params ! BUS_PARAM_SDA) \<noteq> None"
    and "gpio_to_chip e (params ! BUS_PARAM_SCL) \<noteq> None"
    and "kmalloc_ok e slot" and "platform_device_alloc_ok e slot"
    and "platform_device_add_data_ret e slot \<noteq> 0 \<or> platform_device_add_ret e slot \<noteq> 0"
  shows "\<exists>s'. i2c_gpio_custom_add_one e slot params s
               = Inr (if platform_device_add_data_ret e slot \<noteq> 0
                      then platform_device_add_data_ret e slot
                      else platform_device_add_ret e slot, s')
     \<and> new_events s s' =
          [Gpio_to_chip (params ! BUS_PARAM_SDA), Gpio_to_chip (params ! BUS_PARAM_SCL),
           Kmalloc (BUS_NAME_MAX + 1) (Some (next_ptr s)),
           Gpiod_add_lookup_table slot,
           Platform_device_alloc ''i2c-gpio'' (sint (params ! BUS_PARAM_ID))
             (Some (Suc (next_ptr s))),
           Platform_device_add_data (Suc (next_ptr s)) (platform_device_add_data_ret e slot)]
          @ (if platform_device_add_data_ret e slot = 0
             then [Platform_device_add (Suc (next_ptr s)) (platform_device_add_ret e slot)]
             else [])
          @ [Platform_device_put (Suc (next_ptr s)),
             Gpiod_remove_lookup_table slot,
             Kfree (Some (next_ptr s))]
     \<and> pdevs s' (Suc (next_ptr s)) = None
     \<and> slot \<notin> set (gpio_lookup_list s')
     \<and> gpio_lookup_list s' = removeAll slot (gpio_lookup_list s)
     \<and> bufs s' (next_ptr s) = None
     \<and> registered s' = registered s
     \<and> devices s' = devices s \<and> nr_devices s' = nr_devices s"
proof -
  from assms(3,4) obtain c1 c2 where
    c: "gpio_to_chip e (params ! BUS_PARAM_SDA) = Some c1"
       "gpio_to_chip e (params ! BUS_PARAM_SCL) = Some c2"
    by auto
  show ?thesis
  proof (cases "platform_device_add_data_ret e slot = 0")
    case True
    with assms(7) have "platform_device_add_ret e slot \<noteq> 0" by simp
    from add_one_add_fails [OF assms(1,2) c assms(5,6) True this] True
    show ?thesis by (simp add: new_events_def)
  next
    case False
    from add_one_add_data_fails [OF assms(1,2) c assms(5,6) False] False
    show ?thesis by (simp add: new_events_def)
  qed
qed

theorem rollback_after_install_witness:
  "returned (i2c_gpio_custom_add_one env_add_fails 0 (module_param_array [0, 5, 6])
       (init_state [0, 5, 6] [] [] [])) = Some (- 17)
   \<and> map_option trace (state_after (i2c_gpio_custom_add_one env_add_fails 0
       (module_param_array [0, 5, 6]) (init_state [0, 5, 6] [] [] [])))
     = Some [Gpio_to_chip 5, Gpio_to_chip 6, Kmalloc 33 (Some 0), Gpiod_add_lookup_table 0,
             Platform_device_alloc ''i2c-gpio'' 0 (Some 1), Platform_device_add_data 1 0,
             Platform_device_add 1 (- 17), Platform_device_put 1,
             Gpiod_remove_lookup_table 0, Kfree (Some 0)]
   \<and> map_option gpio_lookup_list (state_after (i2c_gpio_custom_add_one env_add_fails 0
       (module_param_array [0, 5, 6]) (init_state [0, 5, 6] [] [] []))) = Some []
   \<and> returned (i2c_gpio_custom_add_one env_add_data_fails 0 (module_param_array [0, 5, 6])
       (init_state [0, 5, 6] [] [] [])) = Some (- ENOMEM)
   \<and> map_option trace (state_after (i2c_gpio_custom_add_one env_add_data_fails 0
       (module_param_array [0, 5, 6]) (init_state [0, 5, 6] [] [] [])))
     = Some [Gpio_to_chip 5, Gpio_to_chip 6, Kmalloc 33 (Some 0), Gpiod_add_lookup_table 0,
             Platform_device_alloc ''i2c-gpio'' 0 (Some 1),
             Platform_device_add_data 1 (- ENOMEM), Platform_device_put 1,
             Gpiod_remove_lookup_table 0, Kfree (Some 0)]"
proof -
  have a: "arrays_ok 0 (module_param_array [0, 5, 6]) (init_state [0, 5, 6] [] [] [])"
    by (rule init_arrays_ok) (simp_all add: bus_consts)
  have n: "BUS_PARAM_REQUIRED \<le> bus_nump (init_state [0, 5, 6] [] [] []) ! 0"
    by (simp add: init_fields bus_consts)
  have c: "gpio_to_chip env_add_fails (module_param_array [0, 5, 6] ! BUS_PARAM_SDA) \<noteq> None"
    "gpio_to_chip env_add_fails (module_param_array [0, 5, 6] ! BUS_PARAM_SCL) \<noteq> None"
    by (simp_all add: example_params example_chips)
  have k: "kmalloc_ok env_add_fails 0" "platform_device_alloc_ok env_add_fails 0"
    by (simp_all add: env_add_fails_def env_ok_def)
  have r: "platform_device_add_data_ret env_add_fails 0 \<noteq> 0
           \<or> platform_device_add_ret env_add_fails 0 \<noteq> 0"
    by (simp add: env_add_fails_def env_ok_def)
  have c': "gpio_to_chip env_add_data_fails (module_param_array [0, 5, 6] ! BUS_PARAM_SDA) \<noteq> None"
    "gpio_to_chip env_add_data_fails (module_param_array [0, 5, 6] ! BUS_PARAM_SCL) \<noteq> None"
    by (simp_all add: example_params example_chips)
  have k': "kmalloc_ok env_add_data_fails 0" "platform_device_alloc_ok env_add_data_fails 0"
    by (simp_all add: env_add_data_fails_def env_ok_def)
  have r': "platform_device_add_data_ret env_add_data_fails 0 \<noteq> 0
           \<or> platform_device_add_ret env_add_data_fails 0 \<noteq> 0"
    by (simp add: env_add_data_fails_def env_ok_def errnos)
  from rollback_after_install [OF a n c k r]
  have 1: "returned (i2c_gpio_custom_add_one env_add_fails 0 (module_param_array [0, 5, 6])
       (init_state [0, 5, 6] [] [] [])) = Some (- 17)
   \<and> map_option trace (state_after (i2c_gpio_custom_add_one env_add_fails 0
       (module_param_array [0, 5, 6]) (init_state [0, 5, 6] [] [] [])))
     = Some [Gpio_to_chip 5, Gpio_to_chip 6, Kmalloc 33 (Some 0), Gpiod_add_lookup_table 0,
             Platform_device_alloc ''i2c-gpio'' 0 (Some 1), Platform_device_add_data 1 0,
             Platform_device_add 1 (- 17), Platform_device_put 1,
             Gpiod_remove_lookup_table 0, Kfree (Some 0)]
   \<and> map_option gpio_lookup_list (state_after (i2c_gpio_custom_add_one env_add_fails 0
       (module_param_array [0, 5, 6]) (init_state [0, 5, 6] [] [] []))) = Some []"
    by (auto simp: returned_def state_after_def new_events_def init_fields example_params
        env_add_fails_def env_ok_def BUS_NAME_MAX_def)
  from rollback_after_install [OF a n c' k' r']
  have 2: "returned (i2c_gpio_custom_add_one env_add_data_fails 0 (module_param_array [0, 5, 6])
       (init_state [0, 5, 6] [] [] [])) = Some (- ENOMEM)
   \<and> map_option trace (state_after (i2c_gpio_custom_add_one env_add_data_fails 0
       (module_param_array [0, 5, 6]) (init_state [0, 5, 6] [] [] [])))
     = Some [Gpio_to_chip 5, Gpio_to_chip 6, Kmalloc 33 (Some 0), Gpiod_add_lookup_table 0,
             Platform_device_alloc ''i2c-gpio'' 0 (Some 1),
             Platform_device_add_data 1 (- ENOMEM), Platform_device_put 1,
             Gpiod_remove_lookup_table 0, Kfree (Some 0)]"
    by (auto simp: returned_def state_after_def new_events_def init_fields example_params
        env_add_data_fails_def env_ok_def BUS_NAME_MAX_def errnos)
  from 1 2 show ?thesis by simp
qed

subsection \<open>C2: an error in the pass\<close>

text \<open>
  C2 says that a pass that meets an error tears down every slot provisioned earlier. The
  probe does return the error of the failing slot after running cleanup, and cleanup
  removes every device (lemma \<open>probe_error_removes_devices\<close>); but cleanup removes the
  lookup tables by device index, not by slot (see C4). With no \<^verbatim>\<open>bus0\<close>, \<^verbatim>\<open>bus1\<close> = 1,5,6
  and \<^verbatim>\<open>bus2\<close> = 2,3: slot 1 is provisioned (table 1, device 1, name buffer 0), slot 2
  fails with \<^verbatim>\<open>-EINVAL\<close>, and cleanup deletes and puts the device, removes table 0 and
  frees its \<^verbatim>\<open>NULL\<close> name. The probe returns \<^verbatim>\<open>-EINVAL\<close> with no device on the bus, but
  with the table of slot 1 still installed and its name still allocated.
\<close>

theorem error_pass_leaves_table_installed:
  "returned (i2c_gpio_custom_probe env_ok (init_state [] [1, 5, 6] [2, 3] [])) = Some (- EINVAL)
   \<and> map_option trace
        (state_after (i2c_gpio_custom_probe env_ok (init_state [] [1, 5, 6] [2, 3] [])))
     = Some [Printk Version_banner, Gpio_to_chip 5, Gpio_to_chip 6, Kmalloc 33 (Some 0),
             Gpiod_add_lookup_table 1, Platform_device_alloc ''i2c-gpio'' 1 (Some 1),
             Platform_device_add_data 1 0, Platform_device_add 1 0,
             Printk (Not_enough_parameters 2),
             Platform_device_del 1, Platform_device_put 1,
             Gpiod_remove_lookup_table 0, Kfree None]
   \<and> map_option registered
        (state_after (i2c_gpio_custom_probe env_ok (init_state [] [1, 5, 6] [2, 3] [])))
     = Some []
   \<and> map_option gpio_lookup_list
        (state_after (i2c_gpio_custom_probe env_ok (init_state [] [1, 5, 6] [2, 3] [])))
     = Some [1]
   \<and> map_option (buffer_at 0)
        (state_after (i2c_gpio_custom_probe env_ok (init_state [] [1, 5, 6] [2, 3] [])))
     = Some (Some ''i2c-gpio.1'')"
proof -
  obtain s' where
    "i2c_gpio_custom_probe env_ok (init_state [] [1, 5, 6] [2, 3] []) = Inr (- EINVAL, s')"
    and "trace s' = [Printk Version_banner, Gpio_to_chip 5, Gpio_to_chip 6,
                  Kmalloc 33 (Some 0),
                  Gpiod_add_lookup_table 1, Platform_device_alloc ''i2c-gpio'' 1 (Some 1),
                  Platform_device_add_data 1 0, Platform_device_add 1 0,
                  Printk (Not_enough_parameters 2),
                  Platform_device_del 1, Platform_device_put 1,
                  Gpiod_remove_lookup_table 0, Kfree None]"
    and "registered s' = []" and "gpio_lookup_list s' = [1]"
    and "bufs s' 0 = Some ''i2c-gpio.1''"
    by (rule skipped_slot_then_error)
  then show ?thesis
    by (simp add: returned_def state_after_def buffer_at_def)
qed

subsection \<open>C3: cleanup twice\<close>

text \<open>
  C3 says that a second cleanup in a row does nothing. Cleanup leaves \<^verbatim>\<open>nr_devices\<close>,
  \<^verbatim>\<open>devices\<close> and the names in the tables as they are, so a second run makes the same
  calls again: after a module load with one bus, the second cleanup again deletes and
  puts device 1, again removes table 0 and again frees its name.
\<close>

theorem second_cleanup_repeats_calls:
  "map_option trace (cleaned (then_cleanup
       (i2c_gpio_custom_probe env_ok (init_state [0, 5, 6] [] [] []))))
     = Some [Printk Version_banner, Gpio_to_chip 5, Gpio_to_chip 6, Kmalloc 33 (Some 0),
             Gpiod_add_lookup_table 0, Platform_device_alloc ''i2c-gpio'' 0 (Some 1),
             Platform_device_add_data 1 0, Platform_device_add 1 0,
             Platform_device_del 1, Platform_device_put 1,
             Gpiod_remove_lookup_table 0, Kfree (Some 0)]
   \<and> map_option trace (cleaned (cleanup_again (then_cleanup
       (i2c_gpio_custom_probe env_ok (init_state [0, 5, 6] [] [] [])))))
     = Some [Printk Version_banner, Gpio_to_chip 5, Gpio_to_chip 6, Kmalloc 33 (Some 0),
             Gpiod_add_lookup_table 0, Platform_device_alloc ''i2c-gpio'' 0 (Some 1),
             Platform_device_add_data 1 0, Platform_device_add 1 0,
             Platform_device_del 1, Platform_device_put 1,
             Gpiod_remove_lookup_table 0, Kfree (Some 0),
             Platform_device_del 1, Platform_device_put 1,
             Gpiod_remove_lookup_table 0, Kfree (Some 0)]"
proof -
  obtain s s' s'' where
    "i2c_gpio_custom_probe env_ok (init_state [0, 5, 6] [] [] []) = Inr (0, s)"
    and "i2c_gpio_custom_cleanup s = Inr s'" and "i2c_gpio_custom_cleanup s' = Inr s''"
    and "trace s = [Printk Version_banner, Gpio_to_chip 5, Gpio_to_chip 6, Kmalloc 33 (Some 0),
                  Gpiod_add_lookup_table 0, Platform_device_alloc ''i2c-gpio'' 0 (Some 1),
                  Platform_device_add_data 1 0, Platform_device_add 1 0]"
    and "trace s' = trace s @ [Platform_device_del 1, Platform_device_put 1,
                  Gpiod_remove_lookup_table 0, Kfree (Some 0)]"
    and "trace s'' = trace s' @ [Platform_device_del 1, Platform_device_put 1,
                  Gpiod_remove_lookup_table 0, Kfree (Some 0)]"
    and "nr_devices s = 1" and "nr_devices s' = 1" and "registered s = [1]"
    and "registered s' = []"
    by (rule one_bus_cleanup)
  then show ?thesis
    by (simp add: then_cleanup_def cleanup_again_def cleaned_def)
qed

text \<open>
  C3, as amended. In every state in which cleanup stays inside its arrays, cleanup
  returns, and it changes neither \<^verbatim>\<open>nr_devices\<close> nor \<^verbatim>\<open>devices\<close> nor the lookup tables;
  the calls it makes are those of \<open>cleanup_calls\<close>. A second cleanup in a row therefore
  returns as well and makes exactly the same calls as the first. It makes no call, and
  changes nothing, exactly when \<^verbatim>\<open>nr_devices\<close> is zero.
\<close>

theorem cleanup_twice_repeats:
  assumes "nr_devices s \<le> BUS_COUNT_MAX" and "length (devices s) = BUS_COUNT_MAX"
    and "length (gpiod_tables s) = BUS_COUNT_MAX"
  shows "\<exists>s' s''. i2c_gpio_custom_cleanup s = Inr s' \<and> i2c_gpio_custom_cleanup s' = Inr s''
     \<and> nr_devices s' = nr_devices s \<and> devices s' = devices s
     \<and> gpiod_tables s' = gpiod_tables s
     \<and> new_events s s' = cleanup_calls s
     \<and> new_events s' s'' = cleanup_calls s
     \<and> (new_events s' s'' = [] \<longleftrightarrow> nr_devices s = 0)
     \<and> (nr_devices s = 0 \<longrightarrow> s' = s \<and> s'' = s)"
proof -
  from cleanup_effect [OF assms] obtain s' where
    1: "i2c_gpio_custom_cleanup s = Inr s'" "nr_devices s' = nr_devices s"
       "devices s' = devices s" "gpiod_tables s' = gpiod_tables s"
       "trace s' = trace s @ cleanup_calls s"
    by blast
  from assms 1 have "nr_devices s' \<le> BUS_COUNT_MAX" "length (devices s') = BUS_COUNT_MAX"
    "length (gpiod_tables s') = BUS_COUNT_MAX" by simp_all
  from cleanup_effect [OF this] obtain s'' where
    2: "i2c_gpio_custom_cleanup s' = Inr s''" "trace s'' = trace s' @ cleanup_calls s'"
    by blast
  have 3: "cleanup_calls s' = cleanup_calls s"
    using 1 by (intro cleanup_calls_cong)
  have 4: "s' = s \<and> s'' = s" if "nr_devices s = 0"
    using that 1 2 assms cleanup_nothing [of s] by simp
  from 1 2 3 4 show ?thesis
    by (auto simp: new_events_def cleanup_calls_empty)
qed

theorem cleanup_twice_repeats_witness:
  "cleaned (cleanup_again (then_cleanup
       (i2c_gpio_custom_probe env_ok (init_state [0, 5, 6] [] [] [])))) \<noteq> None
   \<and> map_option nr_devices (cleaned (then_cleanup
       (i2c_gpio_custom_probe env_ok (init_state [0, 5, 6] [] [] [])))) = Some 1
   \<and> map_option devices (cleaned (then_cleanup
       (i2c_gpio_custom_probe env_ok (init_state [0, 5, 6] [] [] []))))
     = Some [Some 1, None, None, None]"
proof -
  obtain s where p: "i2c_gpio_custom_probe env_ok (init_state [0, 5, 6] [] [] []) = Inr (0, s)"
    and f: "trace s = [Printk Version_banner, Gpio_to_chip 5, Gpio_to_chip 6,
                  Kmalloc 33 (Some 0),
                  Gpiod_add_lookup_table 0, Platform_device_alloc ''i2c-gpio'' 0 (Some 1),
                  Platform_device_add_data 1 0, Platform_device_add 1 0]"
    and h: "nr_devices s = 1" "devices s = [Some 1, None, None, None]"
      "map dev_id (gpiod_tables s) = [Some 0, None, None, None]"
      "length (gpiod_tables s) = 4"
      "gpio_lookup_list s = [0]" "registered s = [1]"
    by (rule one_bus_probe)
  have g: "nr_devices s \<le> BUS_COUNT_MAX" "length (devices s) = BUS_COUNT_MAX"
    "length (gpiod_tables s) = BUS_COUNT_MAX"
    by (simp_all add: h bus_consts)
  from cleanup_twice_repeats [OF g] obtain s' s'' where
    "i2c_gpio_custom_cleanup s = Inr s'" "i2c_gpio_custom_cleanup s' = Inr s''"
    "nr_devices s' = nr_devices s" "devices s' = devices s"
    by (elim exE conjE)
  then show ?thesis
    by (simp add: p h then_cleanup_def cleanup_again_def cleaned_def)
qed

subsection \<open>C4: which tables cleanup removes\<close>

text \<open>
  C4 says that cleanup removes, for each provisioned slot, the table of that same slot,
  so that the tables it removes are the tables the pass installed.
  \<^verbatim>\<open>i2c_gpio_custom_add_one\<close> installs \<^verbatim>\<open>gpiod_tables[id]\<close>, the table of the slot, while
  cleanup removes \<^verbatim>\<open>gpiod_tables[i]\<close> for the device indices \<open>i\<close> below \<^verbatim>\<open>nr_devices\<close>.
  With only \<^verbatim>\<open>bus1\<close> given, the pass installs table 1 and returns 0; cleanup then deletes
  and puts the device, removes table 0, which was never installed, and frees its
  \<^verbatim>\<open>NULL\<close> name; table 1 stays installed.
\<close>

theorem cleanup_removes_table_by_device_index:
  "returned (i2c_gpio_custom_probe env_ok (init_state [] [1, 5, 6] [] [])) = Some 0
   \<and> map_option gpio_lookup_list
        (state_after (i2c_gpio_custom_probe env_ok (init_state [] [1, 5, 6] [] []))) = Some [1]
   \<and> map_option trace (cleaned (then_cleanup
        (i2c_gpio_custom_probe env_ok (init_state [] [1, 5, 6] [] []))))
     = Some [Printk Version_banner, Gpio_to_chip 5, Gpio_to_chip 6, Kmalloc 33 (Some 0),
             Gpiod_add_lookup_table 1, Platform_device_alloc ''i2c-gpio'' 1 (Some 1),
             Platform_device_add_data 1 0, Platform_device_add 1 0,
             Platform_device_del 1, Platform_device_put 1,
             Gpiod_remove_lookup_table 0, Kfree None]
   \<and> map_option gpio_lookup_list (cleaned (then_cleanup
        (i2c_gpio_custom_probe env_ok (init_state [] [1, 5, 6] [] [])))) = Some [1]"
proof -
  obtain s where p: "i2c_gpio_custom_probe env_ok (init_state [] [1, 5, 6] [] []) = Inr (0, s)"
    and f: "trace s = [Printk Version_banner, Gpio_to_chip 5, Gpio_to_chip 6,
                  Kmalloc 33 (Some 0),
                  Gpiod_add_lookup_table 1, Platform_device_alloc ''i2c-gpio'' 1 (Some 1),
                  Platform_device_add_data 1 0, Platform_device_add 1 0]"
    and h: "nr_devices s = 1" "devices s = [Some 1, None, None, None]"
      "map dev_id (gpiod_tables s) = [None, Some 0, None, None]"
      "length (gpiod_tables s) = 4"
      "gpio_lookup_list s = [1]" "registered s = [1]"
    by (rule second_slot_probe)
  have g: "nr_devices s \<le> BUS_COUNT_MAX" "length (devices s) = BUS_COUNT_MAX"
    "length (gpiod_tables s) = BUS_COUNT_MAX"
    by (simp_all add: h bus_consts)
  from cleanup_effect [OF g] obtain s' where
    1: "i2c_gpio_custom_cleanup s = Inr s'" "trace s' = trace s @ cleanup_calls s"
    by (elim exE conjE)
  have c: "cleanup_calls s = [Platform_device_del 1, Platform_device_put 1,
                  Gpiod_remove_lookup_table 0, Kfree None]"
    using cleanup_calls_one [OF h(1,2,3,4)] by simp
  have l: "gpio_lookup_list s' = [1]"
    unfolding cleanup_lookup [OF 1(1)] by (simp add: h)
  show ?thesis
    by (simp add: p 1 c f h l returned_def state_after_def then_cleanup_def cleaned_def)
qed

subsection \<open>C5: the number of supplied fields\<close>

text \<open>
  C5. For every tuple, loaded into a slot whose accesses are in range: with no supplied
  field the call returns 0 and the state is unchanged, so nothing is installed; with one
  or two supplied fields it returns \<^verbatim>\<open>-EINVAL\<close> and the only thing it has done is to print
  the message about the missing parameters, so \<^verbatim>\<open>gpio_to_chip\<close> has not been called; with
  exactly three supplied fields, both lines having a chip and the kernel refusing
  nothing, it returns 0 and has registered one device whose platform data has
  \<^verbatim>\<open>udelay\<close> and \<^verbatim>\<open>timeout\<close> zero and the three flags false.
\<close>

theorem add_one_by_field_count:
  assumes "slot < BUS_COUNT_MAX" and "length (bus_nump s) = BUS_COUNT_MAX"
    and "length (gpiod_tables s) = BUS_COUNT_MAX" and "length t \<le> BUS_PARAM_COUNT"
    and "bus_nump s ! slot = length t"
  shows "(length t = 0 \<longrightarrow>
            i2c_gpio_custom_add_one e slot (module_param_array t) s = Inr (0, s))
       \<and> (length t = 1 \<or> length t = 2 \<longrightarrow>
            i2c_gpio_custom_add_one e slot (module_param_array t) s
              = Inr (- EINVAL, s\<lparr>trace := trace s @ [Printk (Not_enough_parameters slot)]\<rparr>))
       \<and> (length t = 3 \<and> gpio_to_chip e (t ! BUS_PARAM_SDA) \<noteq> None
            \<and> gpio_to_chip e (t ! BUS_PARAM_SCL) \<noteq> None
            \<and> kmalloc_ok e slot \<and> platform_device_alloc_ok e slot
            \<and> platform_device_add_data_ret e slot = 0 \<and> platform_device_add_ret e slot = 0
            \<and> nr_devices s < BUS_COUNT_MAX \<and> length (devices s) = BUS_COUNT_MAX \<longrightarrow>
            (\<exists>s'. i2c_gpio_custom_add_one e slot (module_param_array t) s = Inr (0, s')
               \<and> pdevs s' (Suc (next_ptr s))
                   = Some \<lparr>pdev_name = ''i2c-gpio'', pdev_id = sint (t ! BUS_PARAM_ID),
                           platform_data = Some \<lparr>udelay = 0, timeout = 0,
                             sda_is_open_drain = False, scl_is_open_drain = False,
                             scl_is_output_only = False\<rparr>\<rparr>
               \<and> devices s' = (devices s)[nr_devices s := Some (Suc (next_ptr s))]
               \<and> nr_devices s' = Suc (nr_devices s)
               \<and> registered s' = registered s @ [Suc (next_ptr s)]
               \<and> gpio_lookup_list s' = gpio_lookup_list s @ [slot]))"
proof -
  have ok: "arrays_ok slot (module_param_array t) s"
    using assms by (simp add: arrays_ok_def module_param_array_nth)
  have skip: "i2c_gpio_custom_add_one e slot (module_param_array t) s = Inr (0, s)"
    if "length t = 0"
    using that assms ok by (simp add: i2c_gpio_custom_add_one_def add_one_bounded_skip)
  have few: "i2c_gpio_custom_add_one e slot (module_param_array t) s
      = Inr (- EINVAL, s\<lparr>trace := trace s @ [Printk (Not_enough_parameters slot)]\<rparr>)"
    if "length t = 1 \<or> length t = 2"
  proof -
    from that assms have "bus_nump s ! slot \<noteq> 0" "bus_nump s ! slot < BUS_PARAM_REQUIRED"
      by (auto simp: BUS_PARAM_REQUIRED_def)
    with ok show ?thesis
      by (simp add: i2c_gpio_custom_add_one_def add_one_bounded_few)
  qed
  have three: "\<exists>s'. i2c_gpio_custom_add_one e slot (module_param_array t) s = Inr (0, s')
               \<and> pdevs s' (Suc (next_ptr s))
                   = Some \<lparr>pdev_name = ''i2c-gpio'', pdev_id = sint (t ! BUS_PARAM_ID),
                           platform_data = Some \<lparr>udelay = 0, timeout = 0,
                             sda_is_open_drain = False, scl_is_open_drain = False,
                             scl_is_output_only = False\<rparr>\<rparr>
               \<and> devices s' = (devices s)[nr_devices s := Some (Suc (next_ptr s))]
               \<and> nr_devices s' = Suc (nr_devices s)
               \<and> registered s' = registered s @ [Suc (next_ptr s)]
               \<and> gpio_lookup_list s' = gpio_lookup_list s @ [slot]"
    if a: "length t = 3 \<and> gpio_to_chip e (t ! BUS_PARAM_SDA) \<noteq> None
            \<and> gpio_to_chip e (t ! BUS_PARAM_SCL) \<noteq> None
            \<and> kmalloc_ok e slot \<and> platform_device_alloc_ok e slot
            \<and> platform_device_add_data_ret e slot = 0 \<and> platform_device_add_ret e slot = 0
            \<and> nr_devices s < BUS_COUNT_MAX \<and> length (devices s) = BUS_COUNT_MAX"
  proof -
    have p: "module_param_array t ! BUS_PARAM_ID = t ! BUS_PARAM_ID"
      "module_param_array t ! BUS_PARAM_SDA = t ! BUS_PARAM_SDA"
      "module_param_array t ! BUS_PARAM_SCL = t ! BUS_PARAM_SCL"
      "module_param_array t ! BUS_PARAM_UDELAY = 0"
      "module_param_array t ! BUS_PARAM_TIMEOUT = 0"
      "module_param_array t ! BUS_PARAM_SDA_OD = 0"
      "module_param_array t ! BUS_PARAM_SCL_OD = 0"
      "module_param_array t ! BUS_PARAM_SCL_OO = 0"
      using a by (simp_all add: module_param_array_nth bus_consts)
    from a obtain c1 c2 where
      c: "gpio_to_chip e (module_param_array t ! BUS_PARAM_SDA) = Some c1"
         "gpio_to_chip e (module_param_array t ! BUS_PARAM_SCL) = Some c2"
      by (auto simp: p)
    have n: "BUS_PARAM_REQUIRED \<le> bus_nump s ! slot"
      using a assms by (simp add: BUS_PARAM_REQUIRED_def)
    show ?thesis
      using a by (simp add: add_one_ok [OF ok n c] p)
  qed
  from skip few three show ?thesis by blast
qed

theorem add_one_by_field_count_witness:
  "i2c_gpio_custom_add_one env_ok 0 (module_param_array []) (init_state [] [] [] [])
     = Inr (0, init_state [] [] [] [])
   \<and> returned (i2c_gpio_custom_add_one env_ok 0 (module_param_array [2, 3])
                 (init_state [2, 3] [] [] [])) = Some (- EINVAL)
   \<and> returned (i2c_gpio_custom_add_one env_ok 0 (module_param_array [0, 5, 6])
                 (init_state [0, 5, 6] [] [] [])) = Some 0"
proof -
  have "i2c_gpio_custom_add_one env_ok 0 (module_param_array []) (init_state [] [] [] [])
     = Inr (0, init_state [] [] [] [])"
    using add_one_by_field_count [where slot = 0 and s = "init_state [] [] [] []"
        and t = "[]" and e = env_ok]
    by (simp add: init_state_def bus_consts)
  moreover have "returned (i2c_gpio_custom_add_one env_ok 0 (module_param_array [2, 3])
                 (init_state [2, 3] [] [] [])) = Some (- EINVAL)"
    using add_one_by_field_count [where slot = 0 and s = "init_state [2, 3] [] [] []"
        and t = "[2, 3]" and e = env_ok]
    by (simp add: init_state_def bus_consts returned_def)
  moreover have "returned (i2c_gpio_custom_add_one env_ok 0 (module_param_array [0, 5, 6])
                 (init_state [0, 5, 6] [] [] [])) = Some 0"
    using add_one_by_field_count [where slot = 0 and s = "init_state [0, 5, 6] [] [] []"
        and t = "[0, 5, 6]" and e = env_ok]
    by (auto simp: init_state_def bus_consts returned_def env_ok_def chip0_def)
  ultimately show ?thesis by blast
qed

subsection \<open>C6: an unresolvable line\<close>

text \<open>
  C6 says that the builder changes no global state and leaves no partial table. The
  lookup tables are static objects of the module, and the SDA entry is written as soon
  as the SDA line is resolved: with line 5 resolvable and line 100000 not, the call
  returns \<^verbatim>\<open>-EINVAL\<close> and the table of slot 0 holds the SDA entry and no SCL entry.
\<close>

theorem builder_writes_static_table:
  "returned (i2c_gpio_custom_add_one env_ok 0 (module_param_array [0, 5, 100000])
       (init_state [0, 5, 100000] [] [] [])) = Some (- EINVAL)
   \<and> map_option gpiod_tables (state_after (i2c_gpio_custom_add_one env_ok 0
       (module_param_array [0, 5, 100000]) (init_state [0, 5, 100000] [] [] [])))
     = Some [\<lparr>dev_id = None,
              table = [\<lparr>chip_label = Some ''gpio0'', chip_hwnum = 5, con_id = ''sda''\<rparr>,
                       \<lparr>chip_label = None, chip_hwnum = 0, con_id = ''scl''\<rparr>]\<rparr>,
             GPIOD_TABLE_TEMPLATE, GPIOD_TABLE_TEMPLATE, GPIOD_TABLE_TEMPLATE]
   \<and> map_option gpiod_tables (state_after (i2c_gpio_custom_add_one env_ok 0
       (module_param_array [0, 5, 100000]) (init_state [0, 5, 100000] [] [] [])))
     \<noteq> Some (gpiod_tables (init_state [0, 5, 100000] [] [] []))"
proof -
  have a: "arrays_ok 0 (module_param_array [0, 5, 100000]) (init_state [0, 5, 100000] [] [] [])"
    by (rule init_arrays_ok) (simp_all add: bus_consts)
  have n: "BUS_PARAM_REQUIRED \<le> bus_nump (init_state [0, 5, 100000] [] [] []) ! 0"
    by (simp add: init_fields bus_consts)
  have c: "gpio_to_chip env_ok (module_param_array [0, 5, 100000] ! BUS_PARAM_SDA)
             = Some \<lparr>label = ''gpio0'', base = 0\<rparr>"
    "gpio_to_chip env_ok (module_param_array [0, 5, 100000] ! BUS_PARAM_SCL) = None"
    by (simp_all add: example_params example_chips)
  show ?thesis
    unfolding i2c_gpio_custom_add_one_def add_one_bounded_no_scl [OF a n c]
    by (simp add: returned_def state_after_def init_fields example_params set_lookup_def
        GPIOD_TABLE_TEMPLATE_def BUS_COUNT_MAX_def numeral_eq_Suc Let_def)
qed

text \<open>
  C6, as amended. When \<^verbatim>\<open>gpio_to_chip\<close> finds no chip for the SDA line or for the SCL
  line, the call returns \<^verbatim>\<open>-EINVAL\<close> after printing a message with the role and the
  number of the line; no table is installed, no device exists, nothing has been
  allocated, so there is nothing to roll back. Of the module's globals only the static
  table of this slot can differ, and only when the SDA line was resolved before the SCL
  line failed; its name pointer is unchanged.
\<close>

theorem unresolved_line_installs_nothing:
  assumes "arrays_ok slot params s" and "BUS_PARAM_REQUIRED \<le> bus_nump s ! slot"
    and "gpio_to_chip e (params ! BUS_PARAM_SDA) = None
         \<or> gpio_to_chip e (params ! BUS_PARAM_SCL) = None"
  shows "\<exists>s'. i2c_gpio_custom_add_one e slot params s = Inr (- EINVAL, s')
     \<and> new_events s s' =
          (if gpio_to_chip e (params ! BUS_PARAM_SDA) = None
           then [Gpio_to_chip (params ! BUS_PARAM_SDA),
                 Printk (Nonexistent_gpio (params ! BUS_PARAM_SDA) slot SDA)]
           else [Gpio_to_chip (params ! BUS_PARAM_SDA), Gpio_to_chip (params ! BUS_PARAM_SCL),
                 Printk (Nonexistent_gpio (params ! BUS_PARAM_SCL) slot SCL)])
     \<and> gpio_lookup_list s' = gpio_lookup_list s
     \<and> registered s' = registered s \<and> pdevs s' = pdevs s
     \<and> bufs s' = bufs s \<and> next_ptr s' = next_ptr s
     \<and> devices s' = devices s \<and> nr_devices s' = nr_devices s
     \<and> map dev_id (gpiod_tables s') = map dev_id (gpiod_tables s)
     \<and> (\<forall>k. k \<noteq> slot \<longrightarrow> gpiod_tables s' ! k = gpiod_tables s ! k)
     \<and> (gpio_to_chip e (params ! BUS_PARAM_SDA) = None \<longrightarrow> gpiod_tables s' = gpiod_tables s)"
proof (cases "gpio_to_chip e (params ! BUS_PARAM_SDA)")
  case None
  from add_one_bounded_no_sda [OF assms(1,2) None] None
  show ?thesis by (simp add: i2c_gpio_custom_add_one_def new_events_def)
next
  case (Some c1)
  with assms(3) have "gpio_to_chip e (params ! BUS_PARAM_SCL) = None" by simp
  from add_one_bounded_no_scl [OF assms(1,2) Some this] Some
  show ?thesis
    by (simp add: i2c_gpio_custom_add_one_def new_events_def dev_id_set_lookup nth_set_lookup)
qed

theorem unresolved_line_installs_nothing_witness:
  "returned (i2c_gpio_custom_add_one env_ok 1 (module_param_array [1, 100000, 7])
       (init_state [0, 5, 6] [1, 100000, 7] [] [])) = Some (- EINVAL)
   \<and> map_option trace (state_after (i2c_gpio_custom_add_one env_ok 1
       (module_param_array [1, 100000, 7]) (init_state [0, 5, 6] [1, 100000, 7] [] [])))
     = Some [Gpio_to_chip 100000, Printk (Nonexistent_gpio 100000 1 SDA)]
   \<and> map_option gpio_lookup_list (state_after (i2c_gpio_custom_add_one env_ok 1
       (module_param_array [1, 100000, 7]) (init_state [0, 5, 6] [1, 100000, 7] [] []))) = Some []"
proof -
  have a: "arrays_ok 1 (module_param_array [1, 100000, 7])
             (init_state [0, 5, 6] [1, 100000, 7] [] [])"
    by (rule init_arrays_ok) (simp_all add: bus_consts)
  have n: "BUS_PARAM_REQUIRED \<le> bus_nump (init_state [0, 5, 6] [1, 100000, 7] [] []) ! 1"
    by (simp add: init_fields bus_consts)
  have c: "gpio_to_chip env_ok (module_param_array [1, 100000, 7] ! BUS_PARAM_SDA) = None
           \<or> gpio_to_chip env_ok (module_param_array [1, 100000, 7] ! BUS_PARAM_SCL) = None"
    by (simp add: example_params example_chips)
  from unresolved_line_installs_nothing [OF a n c]
  show ?thesis
    by (auto simp: returned_def state_after_def new_events_def init_fields example_params
        example_chips)
qed

subsection \<open>C7: the name buffer cannot be allocated\<close>

text \<open>
  C7 says that the call returns an allocation error when the name buffer cannot be
  allocated. The result of \<^verbatim>\<open>kmalloc\<close> is passed to \<^verbatim>\<open>snprintf\<close> unchecked: with three
  valid fields and a failing \<^verbatim>\<open>kmalloc\<close> the call writes through the \<^verbatim>\<open>NULL\<close> pointer
  and returns nothing.
\<close>

theorem kmalloc_failure_is_dereferenced:
  "i2c_gpio_custom_add_one env_no_memory 0 (module_param_array [0, 5, 6])
     (init_state [0, 5, 6] [] [] []) = Inl Null_pointer_dereference"
proof -
  have "arrays_ok 0 (module_param_array [0, 5, 6]) (init_state [0, 5, 6] [] [] [])"
    by (rule init_arrays_ok) (simp_all add: bus_consts)
  moreover have "BUS_PARAM_REQUIRED \<le> bus_nump (init_state [0, 5, 6] [] [] []) ! 0"
    by (simp add: init_state_def bus_consts)
  moreover have "gpio_to_chip env_no_memory (module_param_array [0, 5, 6] ! BUS_PARAM_SDA)
      = Some \<lparr>label = ''gpio0'', base = 0\<rparr>"
    "gpio_to_chip env_no_memory (module_param_array [0, 5, 6] ! BUS_PARAM_SCL)
      = Some \<lparr>label = ''gpio0'', base = 0\<rparr>"
    by (simp_all add: env_no_memory_def env_ok_def chip0_def module_param_array_def bus_consts)
  moreover have "\<not> kmalloc_ok env_no_memory 0"
    by (simp add: env_no_memory_def)
  ultimately show ?thesis
    unfolding i2c_gpio_custom_add_one_def by (rule add_one_no_memory)
qed

subsection \<open>C8: a name that does not fit\<close>




subsection \<open>C9: the result of the pass\<close>

text \<open>
  C9 says that a pass in which every configured slot is provisioned returns the number
  of buses. The probe returns 0 then: with one configured slot it returns 0, not 1, and
  the number 1 is in \<^verbatim>\<open>nr_devices\<close>.
\<close>

theorem probe_returns_zero_for_one_bus:
  "returned (i2c_gpio_custom_probe env_ok (init_state [0, 5, 6] [] [] [])) = Some 0
   \<and> returned (i2c_gpio_custom_probe env_ok (init_state [0, 5, 6] [] [] [])) \<noteq> Some 1
   \<and> map_option nr_devices
        (state_after (i2c_gpio_custom_probe env_ok (init_state [0, 5, 6] [] [] []))) = Some 1"
proof -
  obtain s where "i2c_gpio_custom_probe env_ok (init_state [0, 5, 6] [] [] []) = Inr (0, s)"
    and "trace s = [Printk Version_banner, Gpio_to_chip 5, Gpio_to_chip 6, Kmalloc 33 (Some 0),
                  Gpiod_add_lookup_table 0, Platform_device_alloc ''i2c-gpio'' 0 (Some 1),
                  Platform_device_add_data 1 0, Platform_device_add 1 0]"
    and "nr_devices s = 1" and "devices s = [Some 1, None, None, None]"
    and "map dev_id (gpiod_tables s) = [Some 0, None, None, None]"
    and "length (gpiod_tables s) = 4"
    and "gpio_lookup_list s = [0]" and "registered s = [1]"
    by (rule one_bus_probe)
  then show ?thesis
    by (simp add: returned_def state_after_def)
qed

text \<open>
  C9, as amended. For every four tuples: if all four are empty, the probe returns
  \<^verbatim>\<open>-ENODEV\<close> after printing that no bus parameter was specified, and nothing else has
  happened. If every tuple provisions its slot without an error and at least one is not
  empty, the probe returns 0, and \<^verbatim>\<open>nr_devices\<close> is the number of tuples that are not
  empty, which is also the number of devices on the bus and of installed tables.
\<close>

theorem probe_result:
  "(t0 = [] \<and> t1 = [] \<and> t2 = [] \<and> t3 = [] \<longrightarrow>
      i2c_gpio_custom_probe e (init_state t0 t1 t2 t3)
        = Inr (- ENODEV,
               printk No_bus_parameters (printk Version_banner (init_state t0 t1 t2 t3))))
   \<and> (slot_succeeds e 0 t0 \<and> slot_succeeds e 1 t1 \<and> slot_succeeds e 2 t2
        \<and> slot_succeeds e 3 t3 \<and> \<not> (t0 = [] \<and> t1 = [] \<and> t2 = [] \<and> t3 = []) \<longrightarrow>
      (\<exists>s'. i2c_gpio_custom_probe e (init_state t0 t1 t2 t3) = Inr (0, s')
         \<and> nr_devices s' = length (filter (\<lambda>t. t \<noteq> []) [t0, t1, t2, t3])
         \<and> length (registered s') = nr_devices s'
         \<and> length (gpio_lookup_list s') = nr_devices s'))"
proof (intro conjI impI)
  let ?s0 = "printk Version_banner (init_state t0 t1 t2 t3)"
  assume e: "t0 = [] \<and> t1 = [] \<and> t2 = [] \<and> t3 = []"
  have "bus_nump ?s0 ! j = 0 \<and> length (bus_of j ?s0) = BUS_PARAM_COUNT"
    if "j < BUS_COUNT_MAX" for j
  proof -
    from that consider "j = 0" | "j = 1" | "j = 2" | "j = 3"
      unfolding BUS_COUNT_MAX_def by linarith
    then have "[t0, t1, t2, t3] ! j = []" using e by cases simp_all
    with init_config [OF that, of t0 t1 t2 t3] show ?thesis
      by (simp add: module_param_array_nth)
  qed
  from slots_done_all_skipped [OF init_pass_inv this, of BUS_COUNT_MAX e]
  have 1: "slots_done e 4 ?s0 = Inr (0, ?s0)" by (simp add: BUS_COUNT_MAX_def)
  have 2: "i2c_gpio_custom_cleanup (printk No_bus_parameters ?s0)
      = Inr (printk No_bus_parameters ?s0)"
    by (rule cleanup_nothing) (simp_all add: printk_def emit_def init_state_def)
  show "i2c_gpio_custom_probe e (init_state t0 t1 t2 t3) = Inr (- ENODEV, printk No_bus_parameters ?s0)"
    unfolding probe_as_slots 1 by (simp add: probe_err_def 2) (simp add: printk_def emit_def init_state_def)
next
  let ?s0 = "printk Version_banner (init_state t0 t1 t2 t3)"
  let ?ts = "[t0, t1, t2, t3]"
  assume a: "slot_succeeds e 0 t0 \<and> slot_succeeds e 1 t1 \<and> slot_succeeds e 2 t2
        \<and> slot_succeeds e 3 t3 \<and> \<not> (t0 = [] \<and> t1 = [] \<and> t2 = [] \<and> t3 = [])"
  have ok: "slot_succeeds e j (?ts ! j) \<and> bus_nump ?s0 ! j = length (?ts ! j)
      \<and> bus_of j ?s0 = module_param_array (?ts ! j)" if "j < BUS_COUNT_MAX" for j
  proof -
    from that consider "j = 0" | "j = 1" | "j = 2" | "j = 3"
      unfolding BUS_COUNT_MAX_def by linarith
    then have "slot_succeeds e j (?ts ! j)" using a by cases simp_all
    with init_config [OF that, of t0 t1 t2 t3] show ?thesis by simp
  qed
  have len: "length ?ts = BUS_COUNT_MAX" by (simp add: BUS_COUNT_MAX_def)
  from slots_done_succeed [OF init_pass_inv len ok, of BUS_COUNT_MAX] obtain s' where
    1: "slots_done e BUS_COUNT_MAX ?s0 = Inr (0, s')"
       "nr_devices s' = nr_devices ?s0 + length (filter (\<lambda>t. t \<noteq> []) (take BUS_COUNT_MAX ?ts))"
    by blast
  have 0: "nr_devices ?s0 = 0" by (simp add: printk_def emit_def init_state_def)
  from 1(2) 0 have n: "nr_devices s' = length (filter (\<lambda>t. t \<noteq> []) ?ts)"
    by (simp add: BUS_COUNT_MAX_def)
  with a have pos: "nr_devices s' \<noteq> 0" by auto
  from slots_done_inv [OF init_pass_inv _ 1(1)] have "pass_inv BUS_COUNT_MAX s'" by simp
  note d = pass_invD [OF this]
  from 1(1) have "slots_done e 4 ?s0 = Inr (0, s')" by (simp add: BUS_COUNT_MAX_def)
  with pos have "i2c_gpio_custom_probe e (init_state t0 t1 t2 t3) = Inr (0, s')"
    unfolding probe_as_slots by simp
  with n d(5,6) show "\<exists>s'. i2c_gpio_custom_probe e (init_state t0 t1 t2 t3) = Inr (0, s')
         \<and> nr_devices s' = length (filter (\<lambda>t. t \<noteq> []) [t0, t1, t2, t3])
         \<and> length (registered s') = nr_devices s'
         \<and> length (gpio_lookup_list s') = nr_devices s'"
    by blast
qed

theorem probe_result_witness:
  "returned (i2c_gpio_custom_probe env_ok (init_state [] [] [] [])) = Some (- ENODEV)
   \<and> (\<exists>s'. i2c_gpio_custom_probe env_ok (init_state [0, 5, 6] [] [] []) = Inr (0, s')
          \<and> nr_devices s' = 1)"
proof -
  have 1: "returned (i2c_gpio_custom_probe env_ok (init_state [] [] [] [])) = Some (- ENODEV)"
    using probe_result [of "[]" "[]" "[]" "[]" env_ok] by (simp add: returned_def)
  have s: "slot_succeeds env_ok 0 [0, 5, 6]" "slot_succeeds env_ok k []" for k
    by (simp_all add: slot_succeeds_def bus_consts env_ok_fields example_chips)
  have 2: "\<exists>s'. i2c_gpio_custom_probe env_ok (init_state [0, 5, 6] [] [] []) = Inr (0, s')
          \<and> nr_devices s' = 1"
    using probe_result [of "[0, 5, 6]" "[]" "[]" "[]" env_ok] s by auto
  from 1 2 show ?thesis by (rule conjI)
qed

subsection \<open>C10: the device counter\<close>

text \<open>
  C10 says that the counter equals the number of live devices also after cleanup.
  Cleanup does not reset \<^verbatim>\<open>nr_devices\<close>: after a module load with one bus and a cleanup,
  the counter is 1 and no device is on the bus.
\<close>

theorem counter_kept_after_cleanup:
  "map_option nr_devices (cleaned (then_cleanup
       (i2c_gpio_custom_probe env_ok (init_state [0, 5, 6] [] [] [])))) = Some 1
   \<and> map_option registered (cleaned (then_cleanup
       (i2c_gpio_custom_probe env_ok (init_state [0, 5, 6] [] [] [])))) = Some []"
proof -
  obtain s s' s'' where
    "i2c_gpio_custom_probe env_ok (init_state [0, 5, 6] [] [] []) = Inr (0, s)"
    and "i2c_gpio_custom_cleanup s = Inr s'" and "i2c_gpio_custom_cleanup s' = Inr s''"
    and "trace s = [Printk Version_banner, Gpio_to_chip 5, Gpio_to_chip 6, Kmalloc 33 (Some 0),
                  Gpiod_add_lookup_table 0, Platform_device_alloc ''i2c-gpio'' 0 (Some 1),
                  Platform_device_add_data 1 0, Platform_device_add 1 0]"
    and "trace s' = trace s @ [Platform_device_del 1, Platform_device_put 1,
                  Gpiod_remove_lookup_table 0, Kfree (Some 0)]"
    and "trace s'' = trace s' @ [Platform_device_del 1, Platform_device_put 1,
                  Gpiod_remove_lookup_table 0, Kfree (Some 0)]"
    and "nr_devices s = 1" and "nr_devices s' = 1" and "registered s = [1]"
    and "registered s' = []"
    by (rule one_bus_cleanup)
  then show ?thesis
    by (simp add: then_cleanup_def cleaned_def)
qed

text \<open>
  C10, as amended. After the call for each slot of the pass has returned, with or
  without an error, \<^verbatim>\<open>nr_devices\<close> is the number of devices on the bus and the number of
  installed tables; the first \<^verbatim>\<open>nr_devices\<close> entries of \<^verbatim>\<open>devices\<close> are the devices on the
  bus in the order they were added, the other entries are \<^verbatim>\<open>NULL\<close>, and the live device
  objects are exactly the devices on the bus. Cleanup in such a state returns and leaves
  no device on the bus and no device object, while \<^verbatim>\<open>nr_devices\<close> keeps its value.
\<close>

theorem counter_after_each_slot:
  assumes "k \<le> BUS_COUNT_MAX"
    and "slots_done e k (printk Version_banner (init_state t0 t1 t2 t3)) = Inr (err, s)"
  shows "nr_devices s = length (registered s)
     \<and> nr_devices s = length (gpio_lookup_list s)
     \<and> take (nr_devices s) (devices s) = map Some (registered s)
     \<and> drop (nr_devices s) (devices s) = replicate (BUS_COUNT_MAX - nr_devices s) None
     \<and> dom (pdevs s) = set (registered s)
     \<and> (\<exists>s'. i2c_gpio_custom_cleanup s = Inr s' \<and> registered s' = []
           \<and> pdevs s' = Map.empty \<and> nr_devices s' = nr_devices s)"
proof -
  from slots_done_inv [OF init_pass_inv assms] have inv: "pass_inv k s" by simp
  note d = pass_invD [OF inv]
  from d(5) have "take (nr_devices s) (devices s) = map Some (registered s)"
    "drop (nr_devices s) (devices s) = replicate (BUS_COUNT_MAX - nr_devices s) None"
    by (subst d(7), simp)+
  with d(5,6,10) cleanup_leaves_nothing [OF inv assms(1)] show ?thesis by auto
qed

theorem counter_after_each_slot_witness:
  "\<exists>s. slots_done env_ok 1 (printk Version_banner (init_state [0, 5, 6] [] [] [])) = Inr (0, s)
     \<and> nr_devices s = 1 \<and> length (registered s) = 1 \<and> length (gpio_lookup_list s) = 1
     \<and> take 1 (devices s) = map Some (registered s)"
proof -
  obtain s1 where r1: "i2c_gpio_custom_add_one env_ok 0
       (bus0 (printk Version_banner (init_state [0, 5, 6] [] [] [])))
       (printk Version_banner (init_state [0, 5, 6] [] [] [])) = Inr (0, s1)"
    and f1: "trace s1 = [Printk Version_banner, Gpio_to_chip 5, Gpio_to_chip 6,
                  Kmalloc 33 (Some 0),
                  Gpiod_add_lookup_table 0, Platform_device_alloc ''i2c-gpio'' 0 (Some 1),
                  Platform_device_add_data 1 0, Platform_device_add 1 0]"
    and h1: "nr_devices s1 = 1" "devices s1 = [Some 1, None, None, None]"
      "map dev_id (gpiod_tables s1) = [Some 0, None, None, None]"
      "length (gpiod_tables s1) = 4"
      "gpio_lookup_list s1 = [0]" "registered s1 = [1]"
    and b1: "bus_nump s1 = [3, length ([] :: u32 list), length ([] :: u32 list), length ([] :: u32 list)]"
      "bus1 s1 = module_param_array []"
      "bus2 s1 = module_param_array []" "bus3 s1 = module_param_array []"
    by (rule first_slot_added)
  have d: "slots_done env_ok 1 (printk Version_banner (init_state [0, 5, 6] [] [] []))
      = Inr (0, s1)"
    using r1 by (simp add: add_slot_def bus_of_def)
  have k: "1 \<le> BUS_COUNT_MAX" by (simp add: bus_consts)
  note c = counter_after_each_slot [OF k d, unfolded h1(1)]
  have "length (registered s1) = 1"
    using c [THEN conjunct1] by (rule sym)
  moreover have "length (gpio_lookup_list s1) = 1"
    using c [THEN conjunct2, THEN conjunct1] by (rule sym)
  moreover have "take 1 (devices s1) = map Some (registered s1)"
    using c [THEN conjunct2, THEN conjunct2, THEN conjunct1] .
  ultimately have "nr_devices s1 = 1 \<and> length (registered s1) = 1 \<and> length (gpio_lookup_list s1) = 1
     \<and> take 1 (devices s1) = map Some (registered s1)"
    using h1(1) by (intro conjI)
  with d show ?thesis by (intro exI [of _ s1] conjI) simp_all
qed

end
